theory Spec2Isabelle
  imports Complex_Main "HOL-Library.List_Lexorder" "HOL-Library.Char_ord"
    "HOL-Library.Sublist"
begin

section \<open>Sentiment aggregation (src/analysis/sentiment\_analyzer.py)\<close>

text \<open>
  Python floats are modelled as real numbers: sums, products and quotients are exact, and
  NaN, infinities and binary rounding are outside the model.  Python ints are \<open>int\<close>.

  A polarity dictionary \<open>{'positive', 'negative', 'neutral', 'compound'}\<close> is a record.
\<close>

record polarity =
  positive :: real
  negative :: real
  neutral :: real
  compound :: real

text \<open>
  The entries that \<open>analyze_posts\<close> and \<open>analyze_tweets\<close> append to
  \<open>symbol_sentiments[symbol]\<close>.  A Reddit entry carries the keys \<open>sentiment\<close>, \<open>score\<close>
  and \<open>upvote_ratio\<close> (read with \<open>item.get('upvote_ratio', 0.5)\<close>, hence optional); a tweet
  entry carries \<open>sentiment\<close>, \<open>like_count\<close> and \<open>retweet_count\<close>; an entry with neither
  \<open>score\<close> nor \<open>like_count\<close> carries the sentiment only.  The keys \<open>num_comments\<close> and
  \<open>reply_count\<close> are never read by the aggregation and are left out.
\<close>

datatype item =
    RedditItem polarity int "real option"
  | TweetItem polarity int int
  | PlainItem polarity

fun sentiment :: "item \<Rightarrow> polarity" where
  "sentiment (RedditItem s score upvote_ratio) = s"
| "sentiment (TweetItem s like_count retweet_count) = s"
| "sentiment (PlainItem s) = s"

text \<open>
  The engagement metric of an entry: \<open>score * upvote_ratio\<close> for a Reddit post,
  \<open>like_count + retweet_count\<close> for a tweet.  An entry without either key has none.
\<close>

fun engagement :: "item \<Rightarrow> real option" where
  "engagement (RedditItem s score upvote_ratio) =
     Some (real_of_int score * (case upvote_ratio of None \<Rightarrow> 0.5 | Some r \<Rightarrow> r))"
| "engagement (TweetItem s like_count retweet_count) =
     Some (real_of_int (like_count + retweet_count))"
| "engagement (PlainItem s) = None"

text \<open>
  \<^verbatim>\<open>
  weight = 1
  if 'score' in item:  # Reddit post
      weight = max(1, item['score'] * item.get('upvote_ratio', 0.5))
  elif 'like_count' in item:  # Tweet
      weight = max(1, item['like_count'] + item['retweet_count'])
  \<close>
\<close>

definition weight :: "item \<Rightarrow> real" where
  "weight it = (case engagement it of None \<Rightarrow> 1 | Some e \<Rightarrow> max 1 e)"

text \<open>The four accumulators of the inner loop.\<close>

record accum =
  total_weight :: real
  weighted_positive :: real
  weighted_negative :: real
  weighted_compound :: real

definition accum0 :: accum where
  "accum0 = \<lparr>total_weight = 0, weighted_positive = 0, weighted_negative = 0,
             weighted_compound = 0\<rparr>"

definition add_item :: "item \<Rightarrow> accum \<Rightarrow> accum" where
  "add_item it a =
     \<lparr>total_weight = total_weight a + weight it,
      weighted_positive = weighted_positive a + positive (sentiment it) * weight it,
      weighted_negative = weighted_negative a + negative (sentiment it) * weight it,
      weighted_compound = weighted_compound a + compound (sentiment it) * weight it\<rparr>"

text \<open>\<open>for item in sentiments: ...\<close>\<close>

fun accumulate :: "item list \<Rightarrow> accum \<Rightarrow> accum" where
  "accumulate [] a = a"
| "accumulate (it # its) a = accumulate its (add_item it a)"

text \<open>
  The dictionary stored under \<open>aggregated[symbol]\<close>, with its keys \<open>positive\<close>,
  \<open>negative\<close>, \<open>compound\<close>, \<open>mentions\<close> and \<open>total_weight\<close>.
\<close>

record signal =
  sig_positive :: real
  sig_negative :: real
  sig_compound :: real
  sig_mentions :: int
  sig_total_weight :: real

text \<open>
  The body of the outer loop for one symbol: \<open>None\<close> when no entry is written to
  \<open>aggregated\<close> (an empty list is skipped by \<open>continue\<close>; a total weight that is not
  positive writes nothing).  The source has no \<open>raise\<close> and validates nothing.
\<close>

definition aggregate_symbol :: "item list \<Rightarrow> signal option" where
  "aggregate_symbol sentiments =
     (if sentiments = [] then None
      else let a = accumulate sentiments accum0 in
        if total_weight a > 0 then
          Some \<lparr>sig_positive = weighted_positive a / total_weight a,
                sig_negative = weighted_negative a / total_weight a,
                sig_compound = weighted_compound a / total_weight a,
                sig_mentions = int (length sentiments),
                sig_total_weight = total_weight a\<rparr>
        else None)"

text \<open>
  \<open>_aggregate_sentiment_by_symbol\<close>: the input dictionary maps a symbol to its list of
  entries, the output dictionary maps a symbol to its aggregate.  One call handles one
  source (\<open>analyze_posts\<close> for Reddit, \<open>analyze_tweets\<close> for Twitter).
\<close>

definition aggregate_sentiment_by_symbol ::
    "(string \<rightharpoonup> item list) \<Rightarrow> (string \<rightharpoonup> signal)" where
  "aggregate_sentiment_by_symbol symbol_sentiments =
     (\<lambda>symbol. case symbol_sentiments symbol of
                  None \<Rightarrow> None
                | Some sentiments \<Rightarrow> aggregate_symbol sentiments)"


section \<open>Stock ranking (src/analysis/stock\_ranker.py)\<close>

text \<open>
  The only exception the ranking code can raise on well-typed dictionaries is the
  \<open>ValueError\<close> ("math domain error") of \<open>math.log\<close> on a non-positive argument; the
  same exception class is raised by \<open>min\<close> on an empty sequence in the price analyzer
  below.  \<open>math.exp\<close> is the real exponential (its \<open>OverflowError\<close> on huge arguments is a
  floating-point matter and outside the model).
\<close>

datatype error = ValueError

definition math_log :: "real \<Rightarrow> error + real" where
  "math_log x = (if 0 < x then Inr (ln x) else Inl ValueError)"

text \<open>
  Python's \<open>round(x, n)\<close> on the real line: the nearest multiple of \<open>10^-n\<close>, a tie going
  to the even multiple.
\<close>

definition round_half_even :: "real \<Rightarrow> int" where
  "round_half_even x =
     (let f = \<lfloor>x\<rfloor> in
      if x - real_of_int f < 1 / 2 then f
      else if 1 / 2 < x - real_of_int f then f + 1
      else if even f then f else f + 1)"

definition round_py :: "real \<Rightarrow> nat \<Rightarrow> real" where
  "round_py x n = real_of_int (round_half_even (x * 10 ^ n)) / 10 ^ n"

text \<open>
  The attributes \<open>self.min_mentions\<close>, \<open>self.reddit_weight\<close> and \<open>self.twitter_weight\<close>
  set by \<open>StockRanker.__init__\<close> from the configuration (defaults 5, 0.6 and 0.4).
\<close>

record ranker =
  min_mentions :: int
  reddit_weight :: real
  twitter_weight :: real

text \<open>
  \<open>reddit_data\<close> and \<open>twitter_data\<close> are \<open>symbols.get(symbol, {})\<close>: the aggregate of the
  symbol, or the empty dictionary (\<open>None\<close> here), every key of which reads as its default.
\<close>

definition get_compound :: "signal option \<Rightarrow> real" where
  "get_compound d = (case d of None \<Rightarrow> 0 | Some s \<Rightarrow> sig_compound s)"

definition get_mentions :: "signal option \<Rightarrow> int" where
  "get_mentions d = (case d of None \<Rightarrow> 0 | Some s \<Rightarrow> sig_mentions s)"

definition get_total_weight :: "signal option \<Rightarrow> real" where
  "get_total_weight d = (case d of None \<Rightarrow> 0 | Some s \<Rightarrow> sig_total_weight s)"

definition get_positive :: "signal option \<Rightarrow> real" where
  "get_positive d = (case d of None \<Rightarrow> 0 | Some s \<Rightarrow> sig_positive s)"

definition get_negative :: "signal option \<Rightarrow> real" where
  "get_negative d = (case d of None \<Rightarrow> 0 | Some s \<Rightarrow> sig_negative s)"

text \<open>
  \<^verbatim>\<open>
  reddit_momentum = math.log(reddit_mentions + 1) * math.log(reddit_weight + 1)
  twitter_momentum = math.log(twitter_mentions + 1) * math.log(twitter_weight + 1)
  total_momentum = reddit_momentum * self.reddit_weight + twitter_momentum * self.twitter_weight
  normalized_momentum = 2 / (1 + math.exp(-total_momentum / 10)) - 1
  return max(0, min(1, normalized_momentum))
  \<close>
  The two engagement parameters are named as the caller names its arguments, since
  \<open>reddit_weight\<close> and \<open>twitter_weight\<close> are the fields of the ranker here.
\<close>

definition total_momentum :: "ranker \<Rightarrow> real \<Rightarrow> real \<Rightarrow> real \<Rightarrow> real \<Rightarrow> real" where
  "total_momentum self log_rm log_rw log_tm log_tw =
     (log_rm * log_rw) * reddit_weight self + (log_tm * log_tw) * twitter_weight self"

definition calculate_momentum_score ::
    "ranker \<Rightarrow> int \<Rightarrow> int \<Rightarrow> real \<Rightarrow> real \<Rightarrow> error + real" where
  "calculate_momentum_score self reddit_mentions twitter_mentions
       reddit_weight_total twitter_weight_total =
     (case math_log (real_of_int (reddit_mentions + 1)) of Inl e \<Rightarrow> Inl e | Inr log_rm \<Rightarrow>
      case math_log (reddit_weight_total + 1) of Inl e \<Rightarrow> Inl e | Inr log_rw \<Rightarrow>
      case math_log (real_of_int (twitter_mentions + 1)) of Inl e \<Rightarrow> Inl e | Inr log_tm \<Rightarrow>
      case math_log (twitter_weight_total + 1) of Inl e \<Rightarrow> Inl e | Inr log_tw \<Rightarrow>
        let normalized_momentum =
              2 / (1 + exp (- total_momentum self log_rm log_rw log_tm log_tw / 10)) - 1
        in Inr (max 0 (min 1 normalized_momentum)))"

text \<open>
  \<open>_calculate_confidence_score\<close>, with its local thresholds 3, 5 and 8 and the engagement
  reference 100.
\<close>

definition calculate_confidence_score :: "int \<Rightarrow> int \<Rightarrow> real \<Rightarrow> real \<Rightarrow> real" where
  "calculate_confidence_score reddit_mentions twitter_mentions
       reddit_weight_total twitter_weight_total =
     (let min_reddit_mentions = 3;
          min_twitter_mentions = 5;
          min_total_mentions = 8;
          total_mentions = reddit_mentions + twitter_mentions;
          mention_confidence = min 1 (real_of_int total_mentions / real_of_int min_total_mentions);
          source_diversity =
            (if reddit_mentions \<ge> min_reddit_mentions \<and> twitter_mentions \<ge> min_twitter_mentions
             then 1
             else if reddit_mentions > 0 \<and> twitter_mentions > 0 then 0.8
             else 0.5);
          total_weight = reddit_weight_total + twitter_weight_total;
          engagement_quality = min 1 (total_weight / 100);
          confidence = mention_confidence * 0.4 + source_diversity * 0.4
                         + engagement_quality * 0.2
      in round_py confidence 4)"

text \<open>
  The dictionary built by \<open>_calculate_stock_metrics\<close>.  The key \<open>rank\<close> is absent until
  \<open>rank_stocks\<close> assigns it, hence optional.  \<open>timestamp\<close> is
  \<open>datetime.now().isoformat()\<close>, a reading of the clock at the call.
\<close>

record stock =
  symbol :: string
  composite_score :: real
  composite_sentiment :: real
  momentum_score :: real
  confidence_score :: real
  total_mentions :: int
  reddit_mentions :: int
  twitter_mentions :: int
  reddit_sentiment :: real
  twitter_sentiment :: real
  reddit_positive :: real
  reddit_negative :: real
  twitter_positive :: real
  twitter_negative :: real
  reddit_engagement :: real
  twitter_engagement :: real
  timestamp :: string
  rank :: "int option"

definition calculate_stock_metrics ::
    "ranker \<Rightarrow> string \<Rightarrow> string \<Rightarrow> signal option \<Rightarrow> signal option \<Rightarrow> error + stock" where
  "calculate_stock_metrics self now name reddit_data twitter_data =
     (let r_sentiment = get_compound reddit_data;
          r_mentions = get_mentions reddit_data;
          reddit_weight_total = get_total_weight reddit_data;
          r_positive = get_positive reddit_data;
          r_negative = get_negative reddit_data;
          t_sentiment = get_compound twitter_data;
          t_mentions = get_mentions twitter_data;
          twitter_weight_total = get_total_weight twitter_data;
          t_positive = get_positive twitter_data;
          t_negative = get_negative twitter_data;
          total_weight = reddit_weight_total * reddit_weight self
                           + twitter_weight_total * twitter_weight self;
          comp_sentiment =
            (if total_weight > 0 then
               (r_sentiment * reddit_weight_total * reddit_weight self
                  + t_sentiment * twitter_weight_total * twitter_weight self) / total_weight
             else 0)
      in case calculate_momentum_score self r_mentions t_mentions
                reddit_weight_total twitter_weight_total of
           Inl e \<Rightarrow> Inl e
         | Inr momentum \<Rightarrow>
             let comp_score = comp_sentiment * 0.7 + momentum * 0.3;
                 confidence = calculate_confidence_score r_mentions t_mentions
                                reddit_weight_total twitter_weight_total
             in Inr \<lparr>symbol = name,
                     composite_score = round_py comp_score 4,
                     composite_sentiment = round_py comp_sentiment 4,
                     momentum_score = round_py momentum 4,
                     confidence_score = round_py confidence 4,
                     total_mentions = r_mentions + t_mentions,
                     reddit_mentions = r_mentions,
                     twitter_mentions = t_mentions,
                     reddit_sentiment = round_py r_sentiment 4,
                     twitter_sentiment = round_py t_sentiment 4,
                     reddit_positive = round_py r_positive 4,
                     reddit_negative = round_py r_negative 4,
                     twitter_positive = round_py t_positive 4,
                     twitter_negative = round_py t_negative 4,
                     reddit_engagement = reddit_weight_total,
                     twitter_engagement = twitter_weight_total,
                     timestamp = now,
                     rank = None\<rparr>)"

text \<open>
  \<open>all_symbols\<close> is a Python set of strings; the order in which \<open>for symbol in
  all_symbols\<close> visits it is fixed by the string hashes of the process and is not
  determined by the two dictionaries.  The model takes the visiting order as the list
  \<open>order\<close>, which \<open>enumerates\<close> constrains to list every key of the two dictionaries
  once.  The clock is read once per visited symbol: \<open>clock n\<close> is the reading at the
  \<open>n\<close>-th call of \<open>_calculate_stock_metrics\<close>.
\<close>

definition enumerates ::
    "string list \<Rightarrow> (string \<rightharpoonup> signal) \<Rightarrow> (string \<rightharpoonup> signal) \<Rightarrow> bool" where
  "enumerates order reddit_symbols twitter_symbols \<longleftrightarrow>
     distinct order \<and> set order = dom reddit_symbols \<union> dom twitter_symbols"

text \<open>
  The loop \<open>for symbol in all_symbols\<close>: an exception of \<open>_calculate_stock_metrics\<close>
  leaves the function; a symbol below \<open>self.min_mentions\<close> is not appended.
\<close>

fun collect_stocks ::
    "ranker \<Rightarrow> (nat \<Rightarrow> string) \<Rightarrow> (string \<rightharpoonup> signal) \<Rightarrow> (string \<rightharpoonup> signal) \<Rightarrow>
     nat \<Rightarrow> string list \<Rightarrow> error + stock list" where
  "collect_stocks self clock reddit_symbols twitter_symbols n [] = Inr []"
| "collect_stocks self clock reddit_symbols twitter_symbols n (name # rest) =
     (case calculate_stock_metrics self (clock n) name
             (reddit_symbols name) (twitter_symbols name) of
        Inl e \<Rightarrow> Inl e
      | Inr stock_metrics \<Rightarrow>
          (case collect_stocks self clock reddit_symbols twitter_symbols (Suc n) rest of
             Inl e \<Rightarrow> Inl e
           | Inr ranked_stocks \<Rightarrow>
               if reddit_mentions stock_metrics + twitter_mentions stock_metrics
                    \<ge> min_mentions self
               then Inr (stock_metrics # ranked_stocks)
               else Inr ranked_stocks))"

text \<open>
  \<open>ranked_stocks.sort(key=lambda x: x['composite_score'], reverse=True)\<close>: Python's sort
  is stable also with \<open>reverse=True\<close>, so records of equal score keep their relative
  order.  A stable ascending sort on the negated key is the same permutation.
\<close>

definition sort_by_score :: "stock list \<Rightarrow> stock list" where
  "sort_by_score ranked_stocks = sort_key (\<lambda>x. - composite_score x) ranked_stocks"

text \<open>\<open>for i, stock in enumerate(ranked_stocks): stock['rank'] = i + 1\<close>\<close>

fun add_rankings :: "nat \<Rightarrow> stock list \<Rightarrow> stock list" where
  "add_rankings i [] = []"
| "add_rankings i (s # rest) = s\<lparr>rank := Some (int i + 1)\<rparr> # add_rankings (Suc i) rest"

definition rank_stocks ::
    "ranker \<Rightarrow> (nat \<Rightarrow> string) \<Rightarrow> string list \<Rightarrow>
     (string \<rightharpoonup> signal) \<Rightarrow> (string \<rightharpoonup> signal) \<Rightarrow> error + stock list" where
  "rank_stocks self clock order reddit_symbols twitter_symbols =
     (case collect_stocks self clock reddit_symbols twitter_symbols 0 order of
        Inl e \<Rightarrow> Inl e
      | Inr ranked_stocks \<Rightarrow> Inr (add_rankings 0 (sort_by_score ranked_stocks)))"


text \<open>A record with its \<open>timestamp\<close> blanked, to compare two runs up to the clock.\<close>

definition erase_timestamp :: "stock \<Rightarrow> stock" where
  "erase_timestamp s = s\<lparr>timestamp := []\<rparr>"

text \<open>
  Sample inputs: the default configuration, the Reddit aggregate of
  \<open>tests/test_analysis.py\<close> stored under two symbols, and two clocks.
\<close>

definition sample_ranker :: ranker where
  "sample_ranker = \<lparr>min_mentions = 5, reddit_weight = 0.6, twitter_weight = 0.4\<rparr>"

definition sample_signal :: signal where
  "sample_signal = \<lparr>sig_positive = 0.7, sig_negative = 0.2, sig_compound = 0.5,
                     sig_mentions = 10, sig_total_weight = 100\<rparr>"

definition sample_reddit :: "string \<rightharpoonup> signal" where
  "sample_reddit = [''AAA'' \<mapsto> sample_signal, ''BBB'' \<mapsto> sample_signal]"

definition clock_morning :: "nat \<Rightarrow> string" where
  "clock_morning n = ''2024-01-02T09:00:00''"

definition clock_evening :: "nat \<Rightarrow> string" where
  "clock_evening n = ''2024-01-02T21:00:00''"


section \<open>Backtester (src/analysis/backtester.py)\<close>

text \<open>
  Dates are day numbers (\<open>int\<close>), so that the comparison of two dates is the comparison
  of the numbers and \<open>(x - y).days\<close> is their difference.  A cell of a price table is
  \<open>None\<close> when it is NaN (\<open>pd.isna\<close>).

  A row of \<open>sentiment_df\<close>, with the four columns that \<open>calculate_sentiment_accuracy\<close>
  reads: \<open>symbol\<close>, \<open>date\<close>, \<open>composite_sentiment\<close>, \<open>confidence_score\<close>.
\<close>

record ranking_row =
  row_symbol :: string
  row_date :: int
  row_composite_sentiment :: real
  row_confidence_score :: real

text \<open>
  A row of a price table of the backtester: its index date and the three columns
  \<open>Forward_1d_Return\<close>, \<open>Forward_3d_Return\<close>, \<open>Forward_7d_Return\<close>.  The rows of a table
  are listed in index order.
\<close>

record price_row =
  index_date :: int
  Forward_1d_Return :: "real option"
  Forward_3d_Return :: "real option"
  Forward_7d_Return :: "real option"

text \<open>An element of \<open>results['detailed_results']\<close>.\<close>

record detailed_result =
  dr_symbol :: string
  dr_date :: int
  dr_sentiment_score :: real
  dr_confidence_score :: real
  forward_1d_return :: "real option"
  forward_3d_return :: "real option"
  forward_7d_return :: "real option"
  predicted_direction :: int

text \<open>The \<open>results\<close> dictionary (its key \<open>correlations\<close> is never written and is left out).\<close>

record accuracy_results =
  total_predictions :: nat
  correct_predictions_1d :: nat
  correct_predictions_3d :: nat
  correct_predictions_7d :: nat
  accuracy_1d :: real
  accuracy_3d :: real
  accuracy_7d :: real
  detailed_results :: "detailed_result list"

definition results0 :: accuracy_results where
  "results0 = \<lparr>total_predictions = 0, correct_predictions_1d = 0,
      correct_predictions_3d = 0, correct_predictions_7d = 0,
      accuracy_1d = 0, accuracy_3d = 0, accuracy_7d = 0, detailed_results = []\<rparr>"

text \<open>
  \<^verbatim>\<open>
  date_matches = symbol_prices.index.date >= sentiment_date.date()
  if not date_matches.any(): continue
  price_row_idx = symbol_prices.index[date_matches][0]
  price_row = symbol_prices.loc[price_row_idx]
  \<close>
  The first row, in index order, whose date is on or after the sentiment date (index
  labels are taken to be distinct, one row per trading day).
\<close>

definition first_on_or_after :: "price_row list \<Rightarrow> int \<Rightarrow> price_row option" where
  "first_on_or_after symbol_prices sentiment_date =
     find (\<lambda>p. index_date p \<ge> sentiment_date) symbol_prices"

text \<open>
  \<^verbatim>\<open>
  if not pd.isna(forward_1d):
      actual_direction_1d = 1 if forward_1d > 0 else -1
      if predicted_direction == actual_direction_1d:
          results['correct_predictions_1d'] += 1
  \<close>
  The increment of the counter of one horizon.
\<close>

definition hit :: "int \<Rightarrow> real option \<Rightarrow> nat" where
  "hit predicted forward =
     (case forward of
        None \<Rightarrow> 0
      | Some f \<Rightarrow>
          let actual_direction = (if f > 0 then 1 else - 1)
          in if predicted = actual_direction then 1 else 0)"

text \<open>The body of \<open>for _, row in sentiment_df.iterrows()\<close>.\<close>

definition accuracy_step ::
    "(string \<rightharpoonup> price_row list) \<Rightarrow> ranking_row \<Rightarrow> accuracy_results \<Rightarrow> accuracy_results" where
  "accuracy_step price_data row results =
     (let sentiment_score = row_composite_sentiment row;
          confidence = row_confidence_score row
      in case price_data (row_symbol row) of
           None \<Rightarrow> results
         | Some symbol_prices \<Rightarrow>
             (case first_on_or_after symbol_prices (row_date row) of
                None \<Rightarrow> results
              | Some price_row \<Rightarrow>
                  let forward_1d = Forward_1d_Return price_row;
                      forward_3d = Forward_3d_Return price_row;
                      forward_7d = Forward_7d_Return price_row
                  in if forward_1d = None \<and> forward_3d = None \<and> forward_7d = None
                     then results
                     else
                       let predicted = (if sentiment_score > 0 then 1 else - 1)
                       in results
                            \<lparr>total_predictions := total_predictions results + 1,
                             correct_predictions_1d :=
                               correct_predictions_1d results + hit predicted forward_1d,
                             correct_predictions_3d :=
                               correct_predictions_3d results + hit predicted forward_3d,
                             correct_predictions_7d :=
                               correct_predictions_7d results + hit predicted forward_7d,
                             detailed_results := detailed_results results @
                               [\<lparr>dr_symbol = row_symbol row,
                                 dr_date = row_date row,
                                 dr_sentiment_score = sentiment_score,
                                 dr_confidence_score = confidence,
                                 forward_1d_return = forward_1d,
                                 forward_3d_return = forward_3d,
                                 forward_7d_return = forward_7d,
                                 predicted_direction = predicted\<rparr>]\<rparr>))"

text \<open>
  \<^verbatim>\<open>
  if results['total_predictions'] > 0:
      results['accuracy_1d'] = results['correct_predictions_1d'] / results['total_predictions']
      ...
  \<close>
\<close>

definition accuracy_rates :: "accuracy_results \<Rightarrow> accuracy_results" where
  "accuracy_rates results =
     (if total_predictions results > 0 then
        results
          \<lparr>accuracy_1d := real (correct_predictions_1d results) / real (total_predictions results),
           accuracy_3d := real (correct_predictions_3d results) / real (total_predictions results),
           accuracy_7d := real (correct_predictions_7d results) / real (total_predictions results)\<rparr>
      else results)"

definition calculate_sentiment_accuracy ::
    "ranking_row list \<Rightarrow> (string \<rightharpoonup> price_row list) \<Rightarrow> accuracy_results" where
  "calculate_sentiment_accuracy sentiment_df price_data =
     accuracy_rates (fold (accuracy_step price_data) sentiment_df results0)"

text \<open>
  The three horizons, and the columns and counters of the backtester indexed by them
  (the source writes the three cases out).
\<close>

datatype horizon = H1d | H3d | H7d

fun forward_return :: "horizon \<Rightarrow> price_row \<Rightarrow> real option" where
  "forward_return H1d p = Forward_1d_Return p"
| "forward_return H3d p = Forward_3d_Return p"
| "forward_return H7d p = Forward_7d_Return p"

fun correct_predictions :: "horizon \<Rightarrow> accuracy_results \<Rightarrow> nat" where
  "correct_predictions H1d r = correct_predictions_1d r"
| "correct_predictions H3d r = correct_predictions_3d r"
| "correct_predictions H7d r = correct_predictions_7d r"

fun accuracy :: "horizon \<Rightarrow> accuracy_results \<Rightarrow> real" where
  "accuracy H1d r = accuracy_1d r"
| "accuracy H3d r = accuracy_3d r"
| "accuracy H7d r = accuracy_7d r"


section \<open>Price analyzer (sentiment\_price\_analyzer.py)\<close>

text \<open>
  A sentiment entry as built by \<open>_load_json_sentiment_data\<close> (from the daily JSON exports
  \<open>daily_results/analysis_*.json\<close>, \<open>source = 'json'\<close>) and by
  \<open>_load_database_sentiment_data\<close> (from the table \<open>symbol_sentiment_history\<close>,
  \<open>source = 'database'\<close>).  \<open>date\<close> is the string \<open>'YYYY-MM-DD'\<close>.
\<close>

record sentiment_item =
  si_date :: string
  si_symbol :: string
  si_sentiment_score :: real
  si_mentions :: int
  si_confidence :: real
  si_composite_score :: real
  si_source :: string

text \<open>
  A Python dictionary keeps its keys in insertion order; assigning to a key that is
  present replaces the value in place.
\<close>

fun dict_set :: "('k \<times> 'v) list \<Rightarrow> 'k \<Rightarrow> 'v \<Rightarrow> ('k \<times> 'v) list" where
  "dict_set [] k v = [(k, v)]"
| "dict_set ((k', v') # d) k v =
     (if k' = k then (k, v) # d else (k', v') # dict_set d k v)"

text \<open>\<open>key = f"{item['date']}_{item['symbol']}"\<close>\<close>

definition item_key :: "sentiment_item \<Rightarrow> string" where
  "item_key it = si_date it @ ''_'' @ si_symbol it"

text \<open>
  \<^verbatim>\<open>
  combined = {}
  # Prefer JSON data over database data (more complete)
  for item in db_data + json_data:  # DB first, then JSON overwrites
      key = f"{item['date']}_{item['symbol']}"
      combined[key] = item
  return list(combined.values())
  \<close>
\<close>

definition combine_sentiment_data ::
    "sentiment_item list \<Rightarrow> sentiment_item list \<Rightarrow> sentiment_item list" where
  "combine_sentiment_data json_data db_data =
     map snd (fold (\<lambda>it combined. dict_set combined (item_key it) it)
                (db_data @ json_data) [])"

text \<open>
  A row of a price table of the price analyzer: its index date, the columns
  \<open>price_change_1d\<close>, \<open>price_change_3d\<close>, \<open>price_change_7d\<close> (indexed by the period) and
  \<open>Close\<close>.
\<close>

record hist_row =
  hist_date :: int
  price_change :: "horizon \<Rightarrow> real option"
  Close :: real

text \<open>An element of the \<open>results\<close> list.\<close>

record result_row =
  res_symbol :: string
  res_date :: string
  res_sentiment_score :: real
  res_mentions :: int
  res_confidence :: real
  res_price_change :: "horizon \<Rightarrow> real option"
  current_price :: real

text \<open>The three accumulators of \<open>_correlate_sentiment_with_prices\<close>.\<close>

record tally =
  results :: "result_row list"
  correct :: "horizon \<Rightarrow> nat"
  total :: "horizon \<Rightarrow> nat"

definition tally0 :: tally where
  "tally0 = \<lparr>results = [], correct = (\<lambda>period. 0), total = (\<lambda>period. 0)\<rparr>"

text \<open>
  \<open>min(xs, key=f)\<close>: the first element of least key; \<open>ValueError\<close> on an empty sequence.
\<close>

fun min_py :: "('a \<Rightarrow> int) \<Rightarrow> 'a list \<Rightarrow> error + 'a" where
  "min_py key [] = Inl ValueError"
| "min_py key (x # xs) =
     Inr (fold (\<lambda>y best. if key y < key best then y else best) xs x)"

text \<open>
  The body of \<open>for period in ['1d', '3d', '7d']\<close>:
  \<^verbatim>\<open>
  price_change = price_row[f'price_change_{period}']
  if pd.isna(price_change): continue
  sentiment_bullish = sentiment_score > 0.1
  sentiment_bearish = sentiment_score < -0.1
  price_up = price_change > 0
  prediction_made = sentiment_bullish or sentiment_bearish
  if prediction_made:
      total_predictions[period] += 1
      if (sentiment_bullish and price_up) or (sentiment_bearish and not price_up):
          correct_predictions[period] += 1
  \<close>
\<close>

definition period_step :: "real \<Rightarrow> hist_row \<Rightarrow> horizon \<Rightarrow> tally \<Rightarrow> tally" where
  "period_step sentiment_score price_row period t =
     (case price_change price_row period of
        None \<Rightarrow> t
      | Some change \<Rightarrow>
          let sentiment_bullish = sentiment_score > 0.1;
              sentiment_bearish = sentiment_score < - 0.1;
              price_up = change > 0;
              prediction_made = sentiment_bullish \<or> sentiment_bearish
          in if prediction_made then
               let t' = t\<lparr>total := (total t)(period := total t period + 1)\<rparr>
               in if (sentiment_bullish \<and> price_up) \<or> (sentiment_bearish \<and> \<not> price_up)
                  then t'\<lparr>correct := (correct t')(period := correct t' period + 1)\<rparr>
                  else t'
             else t)"

text \<open>
  \<open>closest_date = min(trading_dates, key=lambda x: abs((x - sentiment_date).days))\<close>,
  where \<open>trading_dates\<close> are the index dates of the table.
\<close>

definition closest_trading_day :: "hist_row list \<Rightarrow> int \<Rightarrow> error + int" where
  "closest_trading_day price_hist sentiment_date =
     min_py (\<lambda>x. \<bar>x - sentiment_date\<bar>) (map hist_date price_hist)"

text \<open>
  The \<open>try\<close> block once \<open>price_row\<close> is found: the loop over the three periods, then
  \<open>results.append\<close>.
\<close>

definition correlate_matched :: "sentiment_item \<Rightarrow> hist_row \<Rightarrow> tally \<Rightarrow> tally" where
  "correlate_matched it price_row t =
     (let t' = fold (period_step (si_sentiment_score it) price_row) [H1d, H3d, H7d] t
      in t'\<lparr>results := results t' @
              [\<lparr>res_symbol = si_symbol it,
                res_date = si_date it,
                res_sentiment_score = si_sentiment_score it,
                res_mentions = si_mentions it,
                res_confidence = si_confidence it,
                res_price_change = price_change price_row,
                current_price = Close price_row\<rparr>]\<rparr>)"

text \<open>
  The body of \<open>for sentiment_item in sentiment_data\<close>.  \<open>strptime\<close> stands for
  \<open>datetime.strptime(s, '%Y-%m-%d').date()\<close>, the day number of a well-formed date string
  and \<open>ValueError\<close> otherwise; it and \<open>min\<close> are called outside the \<open>try\<close> block, so
  their exception leaves the function.  Inside the \<open>try\<close> block an exception skips the
  entry: the only one possible on a well-typed table is the \<open>IndexError\<close> of \<open>.iloc[0]\<close>
  when no row carries the closest date.
\<close>

definition correlate_item ::
    "(string \<Rightarrow> error + int) \<Rightarrow> (string \<rightharpoonup> hist_row list) \<Rightarrow>
     sentiment_item \<Rightarrow> tally \<Rightarrow> error + tally" where
  "correlate_item strptime price_data it t =
     (case strptime (si_date it) of
        Inl e \<Rightarrow> Inl e
      | Inr sentiment_date \<Rightarrow>
          (case price_data (si_symbol it) of
             None \<Rightarrow> Inr t
           | Some price_hist \<Rightarrow>
               (case closest_trading_day price_hist sentiment_date of
                  Inl e \<Rightarrow> Inl e
                | Inr closest_date \<Rightarrow>
                    if \<bar>closest_date - sentiment_date\<bar> > 3 then Inr t
                    else
                      (case find (\<lambda>r. hist_date r = closest_date) price_hist of
                         None \<Rightarrow> Inr t
                       | Some price_row \<Rightarrow> Inr (correlate_matched it price_row t)))))"

fun correlate_loop ::
    "(string \<Rightarrow> error + int) \<Rightarrow> (string \<rightharpoonup> hist_row list) \<Rightarrow>
     sentiment_item list \<Rightarrow> tally \<Rightarrow> error + tally" where
  "correlate_loop strptime price_data [] t = Inr t"
| "correlate_loop strptime price_data (it # rest) t =
     (case correlate_item strptime price_data it t of
        Inl e \<Rightarrow> Inl e
      | Inr t' \<Rightarrow> correlate_loop strptime price_data rest t')"

text \<open>The dictionary returned by \<open>_correlate_sentiment_with_prices\<close>.\<close>

record analysis =
  an_results :: "result_row list"
  accuracies :: "horizon \<Rightarrow> real"
  an_total_predictions :: "horizon \<Rightarrow> nat"
  an_correct_predictions :: "horizon \<Rightarrow> nat"

text \<open>
  \<^verbatim>\<open>
  if total_predictions[period] > 0:
      accuracies[period] = (correct_predictions[period] / total_predictions[period]) * 100
  else:
      accuracies[period] = 0
  \<close>
\<close>

definition correlate_sentiment_with_prices ::
    "(string \<Rightarrow> error + int) \<Rightarrow> sentiment_item list \<Rightarrow> (string \<rightharpoonup> hist_row list) \<Rightarrow>
     error + analysis" where
  "correlate_sentiment_with_prices strptime sentiment_data price_data =
     (case correlate_loop strptime price_data sentiment_data tally0 of
        Inl e \<Rightarrow> Inl e
      | Inr t \<Rightarrow>
          Inr \<lparr>an_results = results t,
               accuracies = (\<lambda>period.
                 if total t period > 0
                 then real (correct t period) / real (total t period) * 100
                 else 0),
               an_total_predictions = total t,
               an_correct_predictions = correct t\<rparr>)"

section \<open>Matched pairs\<close>

text \<open>
  The price row that the backtester pairs a ranking row with: the first row on or after
  the row's date in the table of its symbol, provided at least one of its three forward
  returns is defined.  \<open>None\<close> when the loop body reaches a \<open>continue\<close>.
\<close>

definition matched_price_row ::
    "(string \<rightharpoonup> price_row list) \<Rightarrow> ranking_row \<Rightarrow> price_row option" where
  "matched_price_row price_data row =
     (case price_data (row_symbol row) of
        None \<Rightarrow> None
      | Some symbol_prices \<Rightarrow>
          (case first_on_or_after symbol_prices (row_date row) of
             None \<Rightarrow> None
           | Some p \<Rightarrow>
               if Forward_1d_Return p = None \<and> Forward_3d_Return p = None
                    \<and> Forward_7d_Return p = None
               then None else Some p))"

text \<open>
  The price row that the price analyzer pairs a sentiment entry with: the first row
  carrying the closest trading date, provided that date is at most 3 days away.
  \<open>None\<close> when the entry is skipped (or when the loop body raises).
\<close>

definition matched_hist_row ::
    "(string \<Rightarrow> error + int) \<Rightarrow> (string \<rightharpoonup> hist_row list) \<Rightarrow>
     sentiment_item \<Rightarrow> hist_row option" where
  "matched_hist_row strptime price_data it =
     (case strptime (si_date it) of
        Inl e \<Rightarrow> None
      | Inr sentiment_date \<Rightarrow>
          (case price_data (si_symbol it) of
             None \<Rightarrow> None
           | Some price_hist \<Rightarrow>
               (case closest_trading_day price_hist sentiment_date of
                  Inl e \<Rightarrow> None
                | Inr closest_date \<Rightarrow>
                    if \<bar>closest_date - sentiment_date\<bar> > 3 then None
                    else find (\<lambda>r. hist_date r = closest_date) price_hist)))"

text \<open>
  Sample histories: an entry of the JSON export and an entry of the database for the
  same date and symbol, and a second database entry of another day.
\<close>

definition json_entry :: sentiment_item where
  "json_entry = \<lparr>si_date = ''2024-01-02'', si_symbol = ''AAPL'', si_sentiment_score = 0.5,
     si_mentions = 12, si_confidence = 0.8, si_composite_score = 0.4, si_source = ''json''\<rparr>"

definition db_entry :: sentiment_item where
  "db_entry = \<lparr>si_date = ''2024-01-02'', si_symbol = ''AAPL'', si_sentiment_score = - 0.3,
     si_mentions = 7, si_confidence = 0.2, si_composite_score = - 0.3,
     si_source = ''database''\<rparr>"

definition db_entry_other :: sentiment_item where
  "db_entry_other = \<lparr>si_date = ''2024-01-05'', si_symbol = ''AAPL'',
     si_sentiment_score = 0.05, si_mentions = 3, si_confidence = 0.1,
     si_composite_score = 0.05, si_source = ''database''\<rparr>"


text \<open>
  Sample inputs of the backtester: a price table of five trading days for \<open>AAPL\<close>, as
  \<open>get_stock_price_data\<close> builds it (the 1-day forward return is missing on the last
  row, the 3-day one on the last three rows, the 7-day one everywhere), a table for
  \<open>LATE\<close> whose first trading day is day 110, and three ranking rows.
\<close>

definition sample_prices :: "string \<rightharpoonup> price_row list" where
  "sample_prices =
     [''AAPL'' \<mapsto>
        [\<lparr>index_date = 100, Forward_1d_Return = Some 0.02, Forward_3d_Return = Some 0.03,
          Forward_7d_Return = None\<rparr>,
         \<lparr>index_date = 101, Forward_1d_Return = Some 0.01, Forward_3d_Return = Some (- 0.01),
          Forward_7d_Return = None\<rparr>,
         \<lparr>index_date = 102, Forward_1d_Return = Some 0, Forward_3d_Return = None,
          Forward_7d_Return = None\<rparr>,
         \<lparr>index_date = 103, Forward_1d_Return = Some (- 0.02), Forward_3d_Return = None,
          Forward_7d_Return = None\<rparr>,
         \<lparr>index_date = 104, Forward_1d_Return = None, Forward_3d_Return = None,
          Forward_7d_Return = None\<rparr>],
      ''LATE'' \<mapsto>
        [\<lparr>index_date = 110, Forward_1d_Return = Some 0.01, Forward_3d_Return = None,
          Forward_7d_Return = None\<rparr>,
         \<lparr>index_date = 111, Forward_1d_Return = None, Forward_3d_Return = None,
          Forward_7d_Return = None\<rparr>]]"

definition row_flat :: ranking_row where
  "row_flat = \<lparr>row_symbol = ''AAPL'', row_date = 102, row_composite_sentiment = 0,
                row_confidence_score = 0.4\<rparr>"

definition row_up :: ranking_row where
  "row_up = \<lparr>row_symbol = ''AAPL'', row_date = 100, row_composite_sentiment = 0.3,
              row_confidence_score = 0.45\<rparr>"

definition row_far :: ranking_row where
  "row_far = \<lparr>row_symbol = ''LATE'', row_date = 100, row_composite_sentiment = 0.3,
               row_confidence_score = 0.45\<rparr>"

text \<open>
  Sample inputs of the price analyzer: the dates of the sample entries as day numbers
  (days of January 2024), a price table of four trading days for \<open>AAPL\<close>, as
  \<open>get_price_data\<close> builds it (the 1-day change is missing on the first row, the 3-day
  change on the first three rows, the 7-day change everywhere), and an entry dated 16
  days after the last trading day.
\<close>

definition sample_strptime :: "string \<Rightarrow> error + int" where
  "sample_strptime s =
     (if s = ''2024-01-02'' then Inr 2
      else if s = ''2024-01-05'' then Inr 5
      else if s = ''2024-01-20'' then Inr 20
      else Inl ValueError)"

definition changes :: "real option \<Rightarrow> real option \<Rightarrow> real option \<Rightarrow> horizon \<Rightarrow> real option"
  where
  "changes c1 c3 c7 period = (case period of H1d \<Rightarrow> c1 | H3d \<Rightarrow> c3 | H7d \<Rightarrow> c7)"

definition sample_hist :: "string \<rightharpoonup> hist_row list" where
  "sample_hist =
     [''AAPL'' \<mapsto>
        [\<lparr>hist_date = 1, price_change = changes None None None, Close = 101\<rparr>,
         \<lparr>hist_date = 2, price_change = changes (Some (- 1)) None None, Close = 99.99\<rparr>,
         \<lparr>hist_date = 3, price_change = changes (Some 0.5) None None, Close = 100.49\<rparr>,
         \<lparr>hist_date = 4, price_change = changes (Some 2) (Some 1.5) None,
          Close = 102.5\<rparr>]]"

definition stale_entry :: sentiment_item where
  "stale_entry = \<lparr>si_date = ''2024-01-20'', si_symbol = ''AAPL'', si_sentiment_score = - 0.4,
     si_mentions = 9, si_confidence = 0.5, si_composite_score = - 0.4,
     si_source = ''database''\<rparr>"


section \<open>Properties of the sentiment aggregation\<close>

lemma accumulate_total_weight:
  "total_weight (accumulate its a) = total_weight a + sum_list (map weight its)"
  by (induction its arbitrary: a) (simp_all add: add_item_def)

lemma accumulate_weighted_positive:
  "weighted_positive (accumulate its a) =
     weighted_positive a + (\<Sum>it\<leftarrow>its. positive (sentiment it) * weight it)"
  by (induction its arbitrary: a) (simp_all add: add_item_def)

lemma accumulate_weighted_negative:
  "weighted_negative (accumulate its a) =
     weighted_negative a + (\<Sum>it\<leftarrow>its. negative (sentiment it) * weight it)"
  by (induction its arbitrary: a) (simp_all add: add_item_def)

lemma accumulate_weighted_compound:
  "weighted_compound (accumulate its a) =
     weighted_compound a + (\<Sum>it\<leftarrow>its. compound (sentiment it) * weight it)"
  by (induction its arbitrary: a) (simp_all add: add_item_def)

lemma weight_ge_1: "1 \<le> weight it"
  by (simp add: weight_def split: option.split)

lemma sum_weight_ge_length: "real (length its) \<le> sum_list (map weight its)"
proof (induction its)
  case Nil
  show ?case by simp
next
  case (Cons it its)
  have "1 \<le> weight it" by (rule weight_ge_1)
  with Cons show ?case by simp
qed

lemma sum_weight_pos:
  assumes "its \<noteq> []"
  shows "0 < sum_list (map weight its)"
proof -
  from assms have "0 < real (length its)" by simp
  also have "\<dots> \<le> sum_list (map weight its)" by (rule sum_weight_ge_length)
  finally show ?thesis .
qed

lemma aggregate_symbol_eq:
  assumes "sentiments \<noteq> []"
  shows "aggregate_symbol sentiments =
     Some \<lparr>sig_positive = (\<Sum>it\<leftarrow>sentiments. positive (sentiment it) * weight it)
                             / (\<Sum>it\<leftarrow>sentiments. weight it),
           sig_negative = (\<Sum>it\<leftarrow>sentiments. negative (sentiment it) * weight it)
                             / (\<Sum>it\<leftarrow>sentiments. weight it),
           sig_compound = (\<Sum>it\<leftarrow>sentiments. compound (sentiment it) * weight it)
                             / (\<Sum>it\<leftarrow>sentiments. weight it),
           sig_mentions = int (length sentiments),
           sig_total_weight = (\<Sum>it\<leftarrow>sentiments. weight it)\<rparr>"
  using assms sum_weight_pos [OF assms]
  by (simp add: aggregate_symbol_def Let_def accumulate_total_weight
      accumulate_weighted_positive accumulate_weighted_negative
      accumulate_weighted_compound accum0_def)

lemma aggregate_symbol_Some:
  assumes "aggregate_symbol sentiments = Some s"
  shows "sentiments \<noteq> []"
  using assms by (auto simp: aggregate_symbol_def)



text \<open>
  Claim C6, as amended.  The aggregation validates nothing and raises nothing: every
  symbol with at least one entry gets an aggregate, whatever the engagement and the
  compound of its entries are.  An entry of negative engagement is folded in with
  weight 1, and a compound outside \<open>[-1, 1]\<close> enters the weighted mean as it is.
\<close>

theorem aggregate_never_rejects:
  assumes "symbol_sentiments name = Some sentiments" and "sentiments \<noteq> []"
  shows "(\<exists>s. aggregate_sentiment_by_symbol symbol_sentiments name = Some s
            \<and> sig_compound s = (\<Sum>it\<leftarrow>sentiments. compound (sentiment it) * weight it)
                                  / (\<Sum>it\<leftarrow>sentiments. weight it))
       \<and> (\<forall>it \<in> set sentiments. \<forall>e. engagement it = Some e \<and> e < 0 \<longrightarrow> weight it = 1)"
  using assms
  by (auto simp: aggregate_sentiment_by_symbol_def aggregate_symbol_eq weight_def)

theorem aggregate_never_rejects_witness:
  "(\<exists>s. aggregate_sentiment_by_symbol
           [''GME'' \<mapsto> [RedditItem \<lparr>positive = 0, negative = 1, neutral = 0, compound = - 3\<rparr>
                           (- 5) (Some 0.9)]] ''GME'' = Some s
        \<and> sig_compound s = - 3)
   \<and> weight (RedditItem \<lparr>positive = 0, negative = 1, neutral = 0, compound = - 3\<rparr>
               (- 5) (Some 0.9)) = 1"
proof -
  let ?it = "RedditItem \<lparr>positive = 0, negative = 1, neutral = 0, compound = - 3\<rparr>
               (- 5) (Some 0.9)"
  have h1: "[''GME'' \<mapsto> [?it]] ''GME'' = Some [?it]" by simp
  have h2: "[?it] \<noteq> []" by simp
  note r = aggregate_never_rejects
    [where symbol_sentiments = "[''GME'' \<mapsto> [?it]]" and name = "''GME''"
       and sentiments = "[?it]", OF h1 h2]
  have w: "weight ?it = 1"
    using r by simp
  show ?thesis
    using r w by simp
qed

text \<open>
  Counterexample to claim C6 as stated: a Reddit entry of score -5 and upvote ratio 0.9
  (engagement -4.5) and compound -3 is aggregated like any other; no error is raised.
\<close>

theorem invalid_observation_counterexample:
  "engagement (RedditItem \<lparr>positive = 0, negative = 1, neutral = 0, compound = - 3\<rparr>
                 (- 5) (Some 0.9)) = Some (- 4.5)
   \<and> aggregate_sentiment_by_symbol
       [''GME'' \<mapsto> [RedditItem \<lparr>positive = 0, negative = 1, neutral = 0, compound = - 3\<rparr>
                       (- 5) (Some 0.9)]] ''GME''
     = Some \<lparr>sig_positive = 0, sig_negative = 1, sig_compound = - 3,
             sig_mentions = 1, sig_total_weight = 1\<rparr>"
  by (simp add: aggregate_sentiment_by_symbol_def aggregate_symbol_def accum0_def
      add_item_def weight_def)

text \<open>
  Claim C10.  Every aggregate that the aggregation emits has \<open>mentions \<ge> 1\<close> and
  \<open>total_weight \<ge> mentions\<close>.
\<close>

theorem aggregate_mentions_bound:
  assumes "aggregate_sentiment_by_symbol symbol_sentiments name = Some s"
  shows "1 \<le> sig_mentions s \<and> real_of_int (sig_mentions s) \<le> sig_total_weight s"
proof -
  from assms obtain sentiments where agg: "aggregate_symbol sentiments = Some s"
    by (auto simp: aggregate_sentiment_by_symbol_def split: option.splits)
  then have ne: "sentiments \<noteq> []" by (rule aggregate_symbol_Some)
  from agg have m: "sig_mentions s = int (length sentiments)"
    and w: "sig_total_weight s = sum_list (map weight sentiments)"
    by (auto simp: aggregate_symbol_eq [OF ne])
  from ne have "1 \<le> length sentiments" by (cases sentiments) simp_all
  with m have "1 \<le> sig_mentions s" by simp
  moreover have "real_of_int (sig_mentions s) \<le> sig_total_weight s"
    using sum_weight_ge_length [of sentiments] by (simp add: m w)
  ultimately show ?thesis by simp
qed

theorem aggregate_mentions_bound_witness:
  "aggregate_sentiment_by_symbol
     [''TSLA'' \<mapsto> [TweetItem \<lparr>positive = 0.5, negative = 0, neutral = 0.5, compound = 0.5\<rparr> 0 0,
                    PlainItem \<lparr>positive = 0, negative = 0.5, neutral = 0.5, compound = - 0.5\<rparr>]]
     ''TSLA''
   = Some \<lparr>sig_positive = 0.25, sig_negative = 0.25, sig_compound = 0,
           sig_mentions = 2, sig_total_weight = 2\<rparr>
   \<and> (1::int) \<le> 2 \<and> real_of_int 2 \<le> (2::real)"
proof -
  have e: "aggregate_sentiment_by_symbol
     [''TSLA'' \<mapsto> [TweetItem \<lparr>positive = 0.5, negative = 0, neutral = 0.5, compound = 0.5\<rparr> 0 0,
                    PlainItem \<lparr>positive = 0, negative = 0.5, neutral = 0.5, compound = - 0.5\<rparr>]]
     ''TSLA''
   = Some \<lparr>sig_positive = 0.25, sig_negative = 0.25, sig_compound = 0,
           sig_mentions = 2, sig_total_weight = 2\<rparr>"
    by (simp add: aggregate_sentiment_by_symbol_def aggregate_symbol_def accum0_def
        add_item_def weight_def)
  show ?thesis
    using e aggregate_mentions_bound [OF e] by simp
qed


section \<open>Properties of the stock ranking\<close>









lemma stock_metrics_Inr:
  assumes "calculate_stock_metrics self now name rd td = Inr s"
  shows "symbol s = name \<and> timestamp s = now \<and> rank s = None
       \<and> reddit_mentions s = get_mentions rd \<and> twitter_mentions s = get_mentions td
       \<and> total_mentions s = get_mentions rd + get_mentions td
       \<and> reddit_engagement s = get_total_weight rd
       \<and> twitter_engagement s = get_total_weight td
       \<and> (\<exists>m. calculate_momentum_score self (get_mentions rd) (get_mentions td)
                 (get_total_weight rd) (get_total_weight td) = Inr m
              \<and> momentum_score s = round_py m 4)
       \<and> confidence_score s = round_py (calculate_confidence_score (get_mentions rd)
             (get_mentions td) (get_total_weight rd) (get_total_weight td)) 4"
  using assms
  by (auto simp: calculate_stock_metrics_def Let_def split: sum.splits)

lemma collect_stocks_symbols:
  assumes "collect_stocks self clock reddit twitter n order = Inr cs"
  shows "map symbol cs =
           filter (\<lambda>name. get_mentions (reddit name) + get_mentions (twitter name)
                             \<ge> min_mentions self) order"
  using assms
proof (induction order arbitrary: n cs)
  case Nil
  then show ?case by simp
next
  case (Cons name rest)
  from Cons.prems obtain s cs' where
    s: "calculate_stock_metrics self (clock n) name (reddit name) (twitter name) = Inr s"
    and cs': "collect_stocks self clock reddit twitter (Suc n) rest = Inr cs'"
    and cs: "cs = (if reddit_mentions s + twitter_mentions s \<ge> min_mentions self
                   then s # cs' else cs')"
    by (auto split: sum.splits if_splits)
  from stock_metrics_Inr [OF s] have "symbol s = name"
    and "reddit_mentions s = get_mentions (reddit name)"
    and "twitter_mentions s = get_mentions (twitter name)" by simp_all
  with Cons.IH [OF cs'] cs show ?case by simp
qed

lemma collect_stocks_member:
  assumes "collect_stocks self clock reddit twitter n order = Inr cs" and "s \<in> set cs"
  shows "(\<exists>now. calculate_stock_metrics self now (symbol s)
                   (reddit (symbol s)) (twitter (symbol s)) = Inr s)
       \<and> min_mentions self \<le> total_mentions s \<and> symbol s \<in> set order"
  using assms
proof (induction order arbitrary: n cs)
  case Nil
  then show ?case by simp
next
  case (Cons name rest)
  from Cons.prems(1) obtain s' cs' where
    s': "calculate_stock_metrics self (clock n) name (reddit name) (twitter name) = Inr s'"
    and cs': "collect_stocks self clock reddit twitter (Suc n) rest = Inr cs'"
    and cs: "cs = (if reddit_mentions s' + twitter_mentions s' \<ge> min_mentions self
                   then s' # cs' else cs')"
    by (auto split: sum.splits if_splits)
  show ?case
  proof (cases "s \<in> set cs'")
    case True
    with Cons.IH [OF cs'] show ?thesis by simp
  next
    case False
    with cs Cons.prems(2) have eq: "s = s'"
      and ge: "reddit_mentions s' + twitter_mentions s' \<ge> min_mentions self"
      by (auto split: if_splits)
    from stock_metrics_Inr [OF s'] have n: "symbol s' = name"
      and t: "total_mentions s' = reddit_mentions s' + twitter_mentions s'" by simp_all
    from s' n eq have "calculate_stock_metrics self (clock n) (symbol s)
        (reddit (symbol s)) (twitter (symbol s)) = Inr s" by simp
    with ge t eq n show ?thesis by auto
  qed
qed

lemma add_rankings_length: "length (add_rankings i xs) = length xs"
  by (induction xs arbitrary: i) simp_all

lemma add_rankings_nth:
  "j < length xs \<Longrightarrow> add_rankings i xs ! j = (xs ! j)\<lparr>rank := Some (int (i + j) + 1)\<rparr>"
proof (induction xs arbitrary: i j)
  case Nil
  then show ?case by simp
next
  case (Cons x xs)
  then show ?case by (cases j) simp_all
qed

lemma add_rankings_map:
  assumes "\<And>s r. f (s\<lparr>rank := r\<rparr>) = f s"
  shows "map f (add_rankings i xs) = map f xs"
  by (induction xs arbitrary: i) (simp_all add: assms)

lemma add_rankings_filter_score:
  "map symbol (filter (\<lambda>s. composite_score s = k) (add_rankings i xs))
     = map symbol (filter (\<lambda>s. composite_score s = k) xs)"
  by (induction xs arbitrary: i) simp_all

lemma add_rankings_member:
  assumes "r \<in> set (add_rankings i xs)"
  shows "\<exists>s \<in> set xs. \<exists>k. r = s\<lparr>rank := Some k\<rparr>"
  using assms by (induction xs arbitrary: i) auto

lemma sort_by_score_sorted:
  "sorted_wrt (\<lambda>a b. composite_score a \<ge> composite_score b) (sort_by_score xs)"
proof -
  have "sorted (map (\<lambda>x. - composite_score x) (sort_by_score xs))"
    unfolding sort_by_score_def by (rule sorted_sort_key)
  then show ?thesis by (simp add: sorted_map)
qed

lemma rank_stocks_Inr:
  assumes "rank_stocks self clock order reddit twitter = Inr ranked"
  obtains cs where "collect_stocks self clock reddit twitter 0 order = Inr cs"
    and "ranked = add_rankings 0 (sort_by_score cs)"
  using assms by (auto simp: rank_stocks_def split: sum.splits)

lemma rank_stocks_member:
  assumes "rank_stocks self clock order reddit twitter = Inr ranked" and "r \<in> set ranked"
  shows "\<exists>s k now. r = s\<lparr>rank := Some k\<rparr>
           \<and> calculate_stock_metrics self now (symbol s)
                 (reddit (symbol s)) (twitter (symbol s)) = Inr s
           \<and> min_mentions self \<le> total_mentions s \<and> symbol s \<in> set order"
proof -
  from assms(1) obtain cs where cs: "collect_stocks self clock reddit twitter 0 order = Inr cs"
    and ranked: "ranked = add_rankings 0 (sort_by_score cs)" by (rule rank_stocks_Inr)
  from assms(2) ranked obtain s k where "s \<in> set (sort_by_score cs)"
    and r: "r = s\<lparr>rank := Some k\<rparr>"
    using add_rankings_member by blast
  then have "s \<in> set cs" by (simp add: sort_by_score_def)
  from collect_stocks_member [OF cs this] r show ?thesis by blast
qed

lemma stock_metrics_canonical:
  "calculate_stock_metrics self now name rd td
     = map_sum id (timestamp_update (\<lambda>_. now)) (calculate_stock_metrics self [] name rd td)"
  by (simp add: calculate_stock_metrics_def Let_def split: sum.splits)

lemma erase_timestamp_update:
  "erase_timestamp (timestamp_update f s) = erase_timestamp s"
  by (simp add: erase_timestamp_def)

lemma collect_stocks_clock:
  "map_sum id (map erase_timestamp) (collect_stocks self clock reddit twitter n order)
     = map_sum id (map erase_timestamp) (collect_stocks self clock' reddit twitter n' order)"
proof (induction order arbitrary: n n')
  case Nil
  show ?case by simp
next
  case (Cons name rest)
  let ?C = "calculate_stock_metrics self [] name (reddit name) (twitter name)"
  have a: "calculate_stock_metrics self (clock n) name (reddit name) (twitter name)
             = map_sum id (timestamp_update (\<lambda>_. clock n)) ?C"
    by (rule stock_metrics_canonical)
  have b: "calculate_stock_metrics self (clock' n') name (reddit name) (twitter name)
             = map_sum id (timestamp_update (\<lambda>_. clock' n')) ?C"
    by (rule stock_metrics_canonical)
  show ?case
  proof (cases ?C)
    case (Inl e)
    then show ?thesis by (simp add: a b)
  next
    case (Inr c)
    note ih = Cons.IH [of "Suc n" "Suc n'"]
    show ?thesis
    proof (cases "collect_stocks self clock reddit twitter (Suc n) rest")
      case l: (Inl e)
      with ih have "collect_stocks self clock' reddit twitter (Suc n') rest = Inl e"
        by (cases "collect_stocks self clock' reddit twitter (Suc n') rest") simp_all
      with l Inr show ?thesis by (simp add: a b)
    next
      case r: (Inr xs)
      with ih obtain xs' where r': "collect_stocks self clock' reddit twitter (Suc n') rest = Inr xs'"
        and eq: "map erase_timestamp xs = map erase_timestamp xs'"
        by (cases "collect_stocks self clock' reddit twitter (Suc n') rest") simp_all
      from r r' eq Inr show ?thesis by (simp add: a b erase_timestamp_update)
    qed
  qed
qed

lemma insort_key_map_invariant:
  assumes "\<And>x. f (g x) = f x"
  shows "map g (insort_key f x xs) = insort_key f (g x) (map g xs)"
  by (induction xs) (simp_all add: assms)

lemma sort_key_map_invariant:
  assumes "\<And>x. f (g x) = f x"
  shows "map g (sort_key f xs) = sort_key f (map g xs)"
  by (induction xs) (simp_all add: insort_key_map_invariant [of f g, OF assms])

lemma sort_by_score_erase:
  "map erase_timestamp (sort_by_score xs) = sort_by_score (map erase_timestamp xs)"
  unfolding sort_by_score_def
  by (rule sort_key_map_invariant) (simp add: erase_timestamp_def)

lemma add_rankings_erase:
  "map erase_timestamp (add_rankings i xs) = add_rankings i (map erase_timestamp xs)"
  by (induction xs arbitrary: i) (simp_all add: erase_timestamp_def)

text \<open>
  Claim C5, as amended.  Whenever the ranker returns, its output is sorted by
  non-increasing \<open>composite_score\<close>; records of equal \<open>composite_score\<close> stay in the order
  in which the symbol set was visited (the sort is stable and has no other key: neither
  \<open>total_mentions\<close> nor the symbol name breaks a tie); the \<open>rank\<close> of each record is its
  1-based position; and every record has \<open>total_mentions\<close>, the sum of the mentions of
  its symbol in the two sources, at least \<open>min_mentions\<close>.
\<close>

theorem rank_stocks_order:
  assumes "rank_stocks self clock order reddit twitter = Inr ranked"
  shows "sorted_wrt (\<lambda>a b. composite_score a \<ge> composite_score b) ranked
       \<and> (\<forall>k. subseq (map symbol (filter (\<lambda>s. composite_score s = k) ranked)) order)
       \<and> (\<forall>i < length ranked. rank (ranked ! i) = Some (int i + 1))
       \<and> (\<forall>s \<in> set ranked.
             total_mentions s = get_mentions (reddit (symbol s)) + get_mentions (twitter (symbol s))
             \<and> min_mentions self \<le> total_mentions s)"
proof -
  from assms obtain cs where cs: "collect_stocks self clock reddit twitter 0 order = Inr cs"
    and ranked: "ranked = add_rankings 0 (sort_by_score cs)" by (rule rank_stocks_Inr)
  have e: "map composite_score ranked = map composite_score (sort_by_score cs)"
    unfolding ranked by (rule add_rankings_map) simp
  have "sorted_wrt (\<lambda>a b. a \<ge> b) (map composite_score (sort_by_score cs))"
    using sort_by_score_sorted [of cs] by (simp add: sorted_wrt_map)
  then have "sorted_wrt (\<lambda>a b. a \<ge> b) (map composite_score ranked)"
    by (simp only: e)
  then have 1: "sorted_wrt (\<lambda>a b. composite_score a \<ge> composite_score b) ranked"
    by (simp add: sorted_wrt_map)
  have 2: "subseq (map symbol (filter (\<lambda>s. composite_score s = k) ranked)) order" for k
  proof -
    have "filter (\<lambda>s. - composite_score s = - k) (sort_key (\<lambda>x. - composite_score x) cs)
            = filter (\<lambda>s. - composite_score s = - k) cs"
      by (rule sort_key_stable)
    then have "map symbol (filter (\<lambda>s. composite_score s = k) ranked)
                 = map symbol (filter (\<lambda>s. composite_score s = k) cs)"
      by (simp add: ranked add_rankings_filter_score sort_by_score_def)
    moreover have "subseq (map symbol (filter (\<lambda>s. composite_score s = k) cs)) (map symbol cs)"
      by (simp add: subseq_map)
    moreover have "subseq (map symbol cs) order"
      by (simp add: collect_stocks_symbols [OF cs])
    ultimately show ?thesis by (metis subseq_order.trans)
  qed
  have 3: "rank (ranked ! i) = Some (int i + 1)" if "i < length ranked" for i
    using that by (simp add: ranked add_rankings_length add_rankings_nth)
  have 4: "total_mentions s = get_mentions (reddit (symbol s)) + get_mentions (twitter (symbol s))
             \<and> min_mentions self \<le> total_mentions s" if "s \<in> set ranked" for s
  proof -
    from rank_stocks_member [OF assms that] obtain c k now where s: "s = c\<lparr>rank := Some k\<rparr>"
      and c: "calculate_stock_metrics self now (symbol c)
                 (reddit (symbol c)) (twitter (symbol c)) = Inr c"
      and m: "min_mentions self \<le> total_mentions c" by blast
    from stock_metrics_Inr [OF c] s m show ?thesis by simp
  qed
  from 1 2 3 4 show ?thesis by blast
qed

lemmas sample_defs = rank_stocks_def calculate_stock_metrics_def calculate_momentum_score_def
  math_log_def get_compound_def get_mentions_def get_total_weight_def get_positive_def
  get_negative_def Let_def sort_by_score_def sample_ranker_def sample_signal_def
  sample_reddit_def clock_morning_def clock_evening_def

lemma sample_run_returns:
  "\<not> isl (rank_stocks sample_ranker clock_morning [''BBB'', ''AAA''] sample_reddit Map.empty)"
  by (simp add: sample_defs)

lemma sample_run_symbols:
  "map symbol (projr (rank_stocks sample_ranker clock_morning [''BBB'', ''AAA'']
                        sample_reddit Map.empty)) = [''BBB'', ''AAA'']"
  by (simp add: sample_defs)

lemma sample_run_ranks:
  "map rank (projr (rank_stocks sample_ranker clock_morning [''BBB'', ''AAA'']
                      sample_reddit Map.empty)) = [Some 1, Some 2]"
  by (simp add: sample_defs)

lemma sample_run_mentions:
  "map total_mentions (projr (rank_stocks sample_ranker clock_morning [''BBB'', ''AAA'']
                                sample_reddit Map.empty)) = [10, 10]"
  by (simp add: sample_defs)

lemma sample_run_tie:
  "composite_score (projr (rank_stocks sample_ranker clock_morning [''BBB'', ''AAA'']
                             sample_reddit Map.empty) ! 0)
   = composite_score (projr (rank_stocks sample_ranker clock_morning [''BBB'', ''AAA'']
                               sample_reddit Map.empty) ! 1)"
  by (simp add: sample_defs)

theorem rank_stocks_order_witness:
  "rank_stocks sample_ranker clock_morning [''BBB'', ''AAA''] sample_reddit Map.empty
     = Inr (projr (rank_stocks sample_ranker clock_morning [''BBB'', ''AAA'']
                     sample_reddit Map.empty))
   \<and> map symbol (projr (rank_stocks sample_ranker clock_morning [''BBB'', ''AAA'']
                     sample_reddit Map.empty)) = [''BBB'', ''AAA'']
   \<and> rank (projr (rank_stocks sample_ranker clock_morning [''BBB'', ''AAA'']
                     sample_reddit Map.empty) ! 1) = Some 2
   \<and> sorted_wrt (\<lambda>a b. composite_score a \<ge> composite_score b)
        (projr (rank_stocks sample_ranker clock_morning [''BBB'', ''AAA'']
                     sample_reddit Map.empty))"
proof -
  let ?R = "rank_stocks sample_ranker clock_morning [''BBB'', ''AAA''] sample_reddit Map.empty"
  have h: "?R = Inr (projr ?R)"
    using sample_run_returns by (cases ?R) simp_all
  have len: "length (projr ?R) = 2"
    using sample_run_symbols by (metis length_map length_Cons list.size(3) numeral_2_eq_2)
  from rank_stocks_order [OF h]
  have "sorted_wrt (\<lambda>a b. composite_score a \<ge> composite_score b) (projr ?R)"
    and "\<forall>i < length (projr ?R). rank (projr ?R ! i) = Some (int i + 1)" by blast+
  with h len sample_run_symbols show ?thesis by simp
qed

text \<open>
  Counterexample to claim C5 as stated: two symbols with the same aggregate (hence the
  same composite score and the same total mentions), visited in the order \<open>BBB\<close>,
  \<open>AAA\<close>, are returned in that order, \<open>BBB\<close> with rank 1, although \<open>AAA\<close> is the smaller
  name.
\<close>

theorem tie_break_counterexample:
  "enumerates [''BBB'', ''AAA''] sample_reddit Map.empty
   \<and> \<not> isl (rank_stocks sample_ranker clock_morning [''BBB'', ''AAA''] sample_reddit Map.empty)
   \<and> map symbol (projr (rank_stocks sample_ranker clock_morning [''BBB'', ''AAA'']
                           sample_reddit Map.empty)) = [''BBB'', ''AAA'']
   \<and> map rank (projr (rank_stocks sample_ranker clock_morning [''BBB'', ''AAA'']
                         sample_reddit Map.empty)) = [Some 1, Some 2]
   \<and> composite_score (projr (rank_stocks sample_ranker clock_morning [''BBB'', ''AAA'']
                                sample_reddit Map.empty) ! 0)
       = composite_score (projr (rank_stocks sample_ranker clock_morning [''BBB'', ''AAA'']
                                   sample_reddit Map.empty) ! 1)
   \<and> map total_mentions (projr (rank_stocks sample_ranker clock_morning [''BBB'', ''AAA'']
                                   sample_reddit Map.empty)) = [10, 10]
   \<and> ''AAA'' < ''BBB''"
proof -
  have "enumerates [''BBB'', ''AAA''] sample_reddit Map.empty"
    by (auto simp: enumerates_def sample_reddit_def)
  moreover have "''AAA'' < ''BBB''" by simp
  ultimately show ?thesis
    using sample_run_returns sample_run_symbols sample_run_ranks sample_run_tie
      sample_run_mentions by blast
qed

text \<open>
  Claim C7, as amended.  Two runs of the ranker on the same aggregates, with the same
  weights and the same visiting order of the symbol set, either both fail with the
  same error or return sequences that are equal, record by record and field by field,
  once the \<open>timestamp\<close> of every record is blanked; the \<open>timestamp\<close> itself is the
  clock reading of the run.
\<close>

theorem rank_stocks_rerun:
  "map_sum id (map erase_timestamp) (rank_stocks self clock order reddit twitter)
     = map_sum id (map erase_timestamp) (rank_stocks self clock' order reddit twitter)"
proof -
  note c = collect_stocks_clock [of self clock reddit twitter 0 order clock' 0]
  show ?thesis
  proof (cases "collect_stocks self clock reddit twitter 0 order")
    case (Inl e)
    with c have "collect_stocks self clock' reddit twitter 0 order = Inl e"
      by (cases "collect_stocks self clock' reddit twitter 0 order") simp_all
    with Inl show ?thesis by (simp add: rank_stocks_def)
  next
    case (Inr cs)
    with c obtain cs' where cs': "collect_stocks self clock' reddit twitter 0 order = Inr cs'"
      and eq: "map erase_timestamp cs = map erase_timestamp cs'"
      by (cases "collect_stocks self clock' reddit twitter 0 order") simp_all
    have "map erase_timestamp (add_rankings 0 (sort_by_score cs))
            = add_rankings 0 (sort_by_score (map erase_timestamp cs))"
      by (simp only: add_rankings_erase sort_by_score_erase)
    also have "\<dots> = add_rankings 0 (sort_by_score (map erase_timestamp cs'))"
      by (simp only: eq)
    also have "\<dots> = map erase_timestamp (add_rankings 0 (sort_by_score cs'))"
      by (simp only: add_rankings_erase sort_by_score_erase)
    finally show ?thesis using Inr cs' by (simp add: rank_stocks_def)
  qed
qed

lemma evening_run_returns:
  "\<not> isl (rank_stocks sample_ranker clock_evening [''BBB'', ''AAA''] sample_reddit Map.empty)"
  by (simp add: sample_defs)

lemma sample_run_timestamps:
  "map timestamp (projr (rank_stocks sample_ranker clock_morning [''BBB'', ''AAA'']
                           sample_reddit Map.empty))
     = [''2024-01-02T09:00:00'', ''2024-01-02T09:00:00'']"
  by (simp add: sample_defs)

lemma evening_run_timestamps:
  "map timestamp (projr (rank_stocks sample_ranker clock_evening [''BBB'', ''AAA'']
                           sample_reddit Map.empty))
     = [''2024-01-02T21:00:00'', ''2024-01-02T21:00:00'']"
  by (simp add: sample_defs)

lemma reversed_run_symbols:
  "map symbol (projr (rank_stocks sample_ranker clock_morning [''AAA'', ''BBB'']
                        sample_reddit Map.empty)) = [''AAA'', ''BBB'']"
  by (simp add: sample_defs)

theorem rank_stocks_rerun_witness:
  "map erase_timestamp (projr (rank_stocks sample_ranker clock_morning [''BBB'', ''AAA'']
                                 sample_reddit Map.empty))
     = map erase_timestamp (projr (rank_stocks sample_ranker clock_evening [''BBB'', ''AAA'']
                                     sample_reddit Map.empty))
   \<and> map symbol (projr (rank_stocks sample_ranker clock_morning [''BBB'', ''AAA'']
                           sample_reddit Map.empty)) = [''BBB'', ''AAA'']"
proof -
  let ?M = "rank_stocks sample_ranker clock_morning [''BBB'', ''AAA''] sample_reddit Map.empty"
  let ?E = "rank_stocks sample_ranker clock_evening [''BBB'', ''AAA''] sample_reddit Map.empty"
  have m: "?M = Inr (projr ?M)" using sample_run_returns by (cases ?M) simp_all
  have e: "?E = Inr (projr ?E)" using evening_run_returns by (cases ?E) simp_all
  have "map_sum id (map erase_timestamp) ?M = map_sum id (map erase_timestamp) ?E"
    by (rule rank_stocks_rerun)
  then have "map_sum id (map erase_timestamp) (Inr (projr ?M) :: error + stock list)
               = map_sum id (map erase_timestamp) (Inr (projr ?E))"
    using m e by simp
  then have "map erase_timestamp (projr ?M) = map erase_timestamp (projr ?E)" by simp
  with sample_run_symbols show ?thesis by simp
qed

text \<open>
  Counterexample to claim C7 as stated: on the same aggregates and weights, a run in
  the morning and a run in the evening return different records (the timestamps
  differ), and two runs that visit the symbol set in different orders return the tied
  records in different orders.
\<close>

theorem rerun_counterexample:
  "rank_stocks sample_ranker clock_morning [''BBB'', ''AAA''] sample_reddit Map.empty
     \<noteq> rank_stocks sample_ranker clock_evening [''BBB'', ''AAA''] sample_reddit Map.empty
   \<and> enumerates [''BBB'', ''AAA''] sample_reddit Map.empty
   \<and> enumerates [''AAA'', ''BBB''] sample_reddit Map.empty
   \<and> rank_stocks sample_ranker clock_morning [''BBB'', ''AAA''] sample_reddit Map.empty
     \<noteq> rank_stocks sample_ranker clock_morning [''AAA'', ''BBB''] sample_reddit Map.empty"
proof -
  have "map timestamp (projr (rank_stocks sample_ranker clock_morning [''BBB'', ''AAA'']
                           sample_reddit Map.empty))
      \<noteq> map timestamp (projr (rank_stocks sample_ranker clock_evening [''BBB'', ''AAA'']
                           sample_reddit Map.empty))"
    by (simp only: sample_run_timestamps evening_run_timestamps) simp
  then have 1: "rank_stocks sample_ranker clock_morning [''BBB'', ''AAA''] sample_reddit Map.empty
     \<noteq> rank_stocks sample_ranker clock_evening [''BBB'', ''AAA''] sample_reddit Map.empty"
    by auto
  have "map symbol (projr (rank_stocks sample_ranker clock_morning [''BBB'', ''AAA'']
                           sample_reddit Map.empty))
      \<noteq> map symbol (projr (rank_stocks sample_ranker clock_morning [''AAA'', ''BBB'']
                           sample_reddit Map.empty))"
    by (simp only: sample_run_symbols reversed_run_symbols) simp
  then have 2: "rank_stocks sample_ranker clock_morning [''BBB'', ''AAA''] sample_reddit Map.empty
     \<noteq> rank_stocks sample_ranker clock_morning [''AAA'', ''BBB''] sample_reddit Map.empty"
    by auto
  have 3: "enumerates [''BBB'', ''AAA''] sample_reddit Map.empty"
    by (auto simp: enumerates_def sample_reddit_def)
  have 4: "enumerates [''AAA'', ''BBB''] sample_reddit Map.empty"
    by (auto simp: enumerates_def sample_reddit_def)
  from 1 2 3 4 show ?thesis by blast
qed




section \<open>Properties of the price analyzer\<close>

lemma map_of_dict_set: "map_of (dict_set d k v) = (map_of d)(k \<mapsto> v)"
  by (induction d k v rule: dict_set.induct) auto

lemma keys_dict_set: "fst ` set (dict_set d k v) = insert k (fst ` set d)"
  by (induction d k v rule: dict_set.induct) auto

lemma distinct_dict_set:
  "distinct (map fst d) \<Longrightarrow> distinct (map fst (dict_set d k v))"
proof (induction d k v rule: dict_set.induct)
  case (1 k v)
  show ?case by simp
next
  case (2 k' v' d k v)
  then show ?case using keys_dict_set [of d k v] by auto
qed

lemma map_of_fold_dict_set:
  "map_of (fold (\<lambda>it c. dict_set c (key it) it) items d)
     = fold (\<lambda>it m. m(key it \<mapsto> it)) items (map_of d)"
  by (induction items arbitrary: d) (simp_all add: map_of_dict_set)

lemma distinct_fold_dict_set:
  "distinct (map fst d) \<Longrightarrow>
   distinct (map fst (fold (\<lambda>it c. dict_set c (key it) it) items d))"
  by (induction items arbitrary: d) (simp_all add: distinct_dict_set)

lemma keys_fold_dict_set:
  "fst ` set (fold (\<lambda>it c. dict_set c (key it) it) items d)
     = key ` set items \<union> fst ` set d"
  by (induction items arbitrary: d) (auto simp: keys_dict_set)

lemma fold_upd_last:
  assumes "fold (\<lambda>it m. m(key it \<mapsto> it)) items m k = Some x"
  shows "(x \<in> set items \<and> key x = k) \<or> (m k = Some x \<and> k \<notin> key ` set items)"
  using assms
proof (induction items arbitrary: m)
  case Nil
  then show ?case by simp
next
  case (Cons it items)
  from Cons.prems have "fold (\<lambda>it m. m(key it \<mapsto> it)) items (m(key it \<mapsto> it)) k = Some x"
    by (simp only: fold_simps)
  from Cons.IH [OF this] show ?case
    by (auto split: if_splits)
qed

lemma combined_entries:
  assumes "(k, x) \<in> set (fold (\<lambda>it c. dict_set c (item_key it) it) (db_data @ json_data) [])"
  shows "item_key x = k
       \<and> (x \<in> set json_data \<or> (x \<in> set db_data \<and> k \<notin> item_key ` set json_data))"
proof -
  let ?d = "fold (\<lambda>it c. dict_set c (item_key it) it) (db_data @ json_data) []"
  have "distinct (map fst ?d)" by (rule distinct_fold_dict_set) simp
  with assms have "map_of ?d k = Some x" by simp
  then have j: "fold (\<lambda>it m. m(item_key it \<mapsto> it)) json_data
              (fold (\<lambda>it m. m(item_key it \<mapsto> it)) db_data Map.empty) k = Some x"
    by (simp add: map_of_fold_dict_set)
  from fold_upd_last [OF j] show ?thesis
  proof
    assume "x \<in> set json_data \<and> item_key x = k"
    then show ?thesis by simp
  next
    assume a: "fold (\<lambda>it m. m(item_key it \<mapsto> it)) db_data Map.empty k = Some x
                 \<and> k \<notin> item_key ` set json_data"
    then have "x \<in> set db_data \<and> item_key x = k"
      using fold_upd_last [of item_key db_data Map.empty k x] by simp
    with a show ?thesis by simp
  qed
qed

text \<open>
  Claim C8, as amended.  The combined history holds exactly one entry per key
  \<open>date_symbol\<close> occurring in either history.  When the daily JSON export has an entry
  for a key, the entry kept for that key is one of the JSON export, and an entry of the
  database history with the same date and symbol is discarded; this does not depend on
  which history was loaded first.
\<close>

theorem combine_prefers_json:
  "distinct (map item_key (combine_sentiment_data json_data db_data))
   \<and> item_key ` set (combine_sentiment_data json_data db_data)
       = item_key ` (set json_data \<union> set db_data)
   \<and> (\<forall>x \<in> set (combine_sentiment_data json_data db_data).
         (\<exists>j \<in> set json_data. item_key j = item_key x) \<longrightarrow> x \<in> set json_data)
   \<and> (\<forall>j \<in> set json_data. \<forall>b \<in> set db_data.
         si_date b = si_date j \<and> si_symbol b = si_symbol j \<and> b \<notin> set json_data \<longrightarrow>
         b \<notin> set (combine_sentiment_data json_data db_data))"
proof -
  define d where "d = fold (\<lambda>it c. dict_set c (item_key it) it) (db_data @ json_data) []"
  have c: "combine_sentiment_data json_data db_data = map snd d"
    by (simp add: combine_sentiment_data_def d_def)
  have e: "item_key (snd p) = fst p
       \<and> (snd p \<in> set json_data
            \<or> (snd p \<in> set db_data \<and> fst p \<notin> item_key ` set json_data))"
    if "p \<in> set d" for p
    using combined_entries [of "fst p" "snd p" db_data json_data] that
    unfolding d_def by simp
  have k: "map item_key (map snd d) = map fst d"
    using e by (induction d) simp_all
  have "distinct (map fst d)"
    unfolding d_def by (rule distinct_fold_dict_set [of "[]" item_key]) simp
  then have 1: "distinct (map item_key (combine_sentiment_data json_data db_data))"
    by (simp only: c k)
  have "item_key ` set (map snd d) = set (map item_key (map snd d))"
    by (simp only: set_map)
  also have "\<dots> = fst ` set d" by (simp only: k set_map)
  also have "\<dots> = item_key ` set (db_data @ json_data)
                        \<union> fst ` set ([] :: (string \<times> sentiment_item) list)"
    unfolding d_def by (rule keys_fold_dict_set [of item_key])
  also have "\<dots> = item_key ` (set json_data \<union> set db_data)"
    by (simp add: Un_commute)
  finally have 2: "item_key ` set (combine_sentiment_data json_data db_data)
       = item_key ` (set json_data \<union> set db_data)"
    by (simp only: c)
  have 3: "x \<in> set json_data"
    if x: "x \<in> set (combine_sentiment_data json_data db_data)"
      and j: "\<exists>j \<in> set json_data. item_key j = item_key x" for x
  proof -
    from x obtain p where p: "p \<in> set d" and xp: "x = snd p"
      unfolding c by auto
    from e [OF p] have "item_key x = fst p"
      and "x \<in> set json_data \<or> fst p \<notin> item_key ` set json_data"
      unfolding xp by blast+
    moreover from j have "item_key x \<in> item_key ` set json_data" by (metis imageI)
    ultimately show ?thesis by simp
  qed
  have 4: "b \<notin> set (combine_sentiment_data json_data db_data)"
    if "j \<in> set json_data" "b \<in> set db_data"
      "si_date b = si_date j \<and> si_symbol b = si_symbol j \<and> b \<notin> set json_data" for j b
  proof
    assume "b \<in> set (combine_sentiment_data json_data db_data)"
    moreover from that have "item_key j = item_key b"
      by (simp add: item_key_def)
    with that(1) have "\<exists>j \<in> set json_data. item_key j = item_key b" by blast
    ultimately have "b \<in> set json_data" by (rule 3)
    with that show False by simp
  qed
  show ?thesis
  proof (intro conjI ballI impI)
    show "distinct (map item_key (combine_sentiment_data json_data db_data))" by (rule 1)
    show "item_key ` set (combine_sentiment_data json_data db_data)
       = item_key ` (set json_data \<union> set db_data)" by (rule 2)
  next
    fix x
    assume "x \<in> set (combine_sentiment_data json_data db_data)"
      and "\<exists>j \<in> set json_data. item_key j = item_key x"
    then show "x \<in> set json_data" by (rule 3)
  next
    fix j b
    assume "j \<in> set json_data" "b \<in> set db_data"
      "si_date b = si_date j \<and> si_symbol b = si_symbol j \<and> b \<notin> set json_data"
    then show "b \<notin> set (combine_sentiment_data json_data db_data)" by (rule 4)
  qed
qed

lemma sample_combined:
  "combine_sentiment_data [json_entry] [db_entry, db_entry_other]
     = [json_entry, db_entry_other]"
  by (simp add: combine_sentiment_data_def item_key_def json_entry_def db_entry_def
      db_entry_other_def)

theorem combine_prefers_json_witness:
  "json_entry \<in> set [json_entry] \<and> db_entry \<in> set [db_entry, db_entry_other]
   \<and> si_date db_entry = si_date json_entry \<and> si_symbol db_entry = si_symbol json_entry
   \<and> db_entry \<notin> set [json_entry]
   \<and> db_entry \<notin> set (combine_sentiment_data [json_entry] [db_entry, db_entry_other])
   \<and> json_entry \<in> set (combine_sentiment_data [json_entry] [db_entry, db_entry_other])"
proof -
  have h: "json_entry \<in> set [json_entry] \<and> db_entry \<in> set [db_entry, db_entry_other]
     \<and> si_date db_entry = si_date json_entry \<and> si_symbol db_entry = si_symbol json_entry
     \<and> db_entry \<notin> set [json_entry]"
    by (simp add: json_entry_def db_entry_def)
  from combine_prefers_json [of "[json_entry]" "[db_entry, db_entry_other]"]
  have "\<forall>j \<in> set [json_entry]. \<forall>d \<in> set [db_entry, db_entry_other].
         si_date d = si_date j \<and> si_symbol d = si_symbol j \<and> d \<notin> set [json_entry] \<longrightarrow>
         d \<notin> set (combine_sentiment_data [json_entry] [db_entry, db_entry_other])"
    by blast
  with h have "db_entry \<notin> set (combine_sentiment_data [json_entry] [db_entry, db_entry_other])"
    by blast
  moreover have "json_entry \<in> set (combine_sentiment_data [json_entry] [db_entry, db_entry_other])"
    by (simp add: sample_combined)
  ultimately show ?thesis using h by blast
qed

text \<open>
  Counterexample to claim C8 as stated: the database table and the JSON export both
  have an entry for AAPL on 2024-01-02; the combined history keeps the entry of the JSON
  export and drops the entry of the database.
\<close>

theorem combine_counterexample:
  "si_source json_entry = ''json'' \<and> si_source db_entry = ''database''
   \<and> item_key json_entry = item_key db_entry
   \<and> combine_sentiment_data [json_entry] [db_entry, db_entry_other]
       = [json_entry, db_entry_other]
   \<and> db_entry \<notin> set (combine_sentiment_data [json_entry] [db_entry, db_entry_other])"
  by (simp add: sample_combined) (simp add: item_key_def json_entry_def db_entry_def
      db_entry_other_def)


section \<open>Properties of the backtester\<close>

lemma accuracy_step_matched:
  "accuracy_step price_data row r =
     (case matched_price_row price_data row of
        None \<Rightarrow> r
      | Some p \<Rightarrow>
          r\<lparr>total_predictions := total_predictions r + 1,
            correct_predictions_1d := correct_predictions_1d r
              + hit (if row_composite_sentiment row > 0 then 1 else - 1) (Forward_1d_Return p),
            correct_predictions_3d := correct_predictions_3d r
              + hit (if row_composite_sentiment row > 0 then 1 else - 1) (Forward_3d_Return p),
            correct_predictions_7d := correct_predictions_7d r
              + hit (if row_composite_sentiment row > 0 then 1 else - 1) (Forward_7d_Return p),
            detailed_results := detailed_results r @
              [\<lparr>dr_symbol = row_symbol row, dr_date = row_date row,
                dr_sentiment_score = row_composite_sentiment row,
                dr_confidence_score = row_confidence_score row,
                forward_1d_return = Forward_1d_Return p,
                forward_3d_return = Forward_3d_Return p,
                forward_7d_return = Forward_7d_Return p,
                predicted_direction = (if row_composite_sentiment row > 0 then 1 else - 1)\<rparr>]\<rparr>)"
  by (simp add: accuracy_step_def matched_price_row_def Let_def split: option.splits)

lemma hit_eq:
  "hit predicted forward =
     (if (case forward of None \<Rightarrow> False
          | Some f \<Rightarrow> predicted = (if f > 0 then 1 else - 1)) then 1 else 0)"
  by (simp add: hit_def Let_def split: option.splits)

lemma accuracy_step_total:
  "total_predictions (accuracy_step price_data row r) =
     total_predictions r + (if matched_price_row price_data row \<noteq> None then 1 else 0)"
  by (simp add: accuracy_step_matched split: option.splits)

lemma accuracy_step_correct:
  "correct_predictions h (accuracy_step price_data row r) =
     correct_predictions h r +
       (if (case matched_price_row price_data row of
              None \<Rightarrow> False
            | Some p \<Rightarrow>
                (case forward_return h p of
                   None \<Rightarrow> False
                 | Some f \<Rightarrow> (if row_composite_sentiment row > 0 then 1 else - 1)
                              = (if f > 0 then (1::int) else - 1)))
        then 1 else 0)"
  by (cases h) (simp_all add: accuracy_step_matched hit_eq split: option.splits)

lemma accuracy_step_detailed:
  "map predicted_direction (detailed_results (accuracy_step price_data row r)) =
     map predicted_direction (detailed_results r) @
       (if matched_price_row price_data row \<noteq> None
        then [if row_composite_sentiment row > 0 then 1 else - 1] else [])"
  by (simp add: accuracy_step_matched split: option.splits)

lemma fold_accuracy_total:
  "total_predictions (fold (accuracy_step price_data) df r) =
     total_predictions r
       + length (filter (\<lambda>row. matched_price_row price_data row \<noteq> None) df)"
  by (induction df arbitrary: r) (simp_all add: accuracy_step_total)

lemma fold_accuracy_correct:
  "correct_predictions h (fold (accuracy_step price_data) df r) =
     correct_predictions h r
       + length (filter (\<lambda>row.
           case matched_price_row price_data row of
             None \<Rightarrow> False
           | Some p \<Rightarrow>
               (case forward_return h p of
                  None \<Rightarrow> False
                | Some f \<Rightarrow> (if row_composite_sentiment row > 0 then 1 else - 1)
                             = (if f > 0 then (1::int) else - 1))) df)"
  by (induction df arbitrary: r) (simp_all add: accuracy_step_correct)

lemma fold_accuracy_detailed:
  "map predicted_direction (detailed_results (fold (accuracy_step price_data) df r)) =
     map predicted_direction (detailed_results r) @
       map (\<lambda>row. if row_composite_sentiment row > 0 then 1 else - 1)
         (filter (\<lambda>row. matched_price_row price_data row \<noteq> None) df)"
  by (induction df arbitrary: r) (simp_all add: accuracy_step_detailed)

lemma accuracy_rates_fields:
  "total_predictions (accuracy_rates r) = total_predictions r"
  "correct_predictions h (accuracy_rates r) = correct_predictions h r"
  "detailed_results (accuracy_rates r) = detailed_results r"
  by (cases h; simp add: accuracy_rates_def)+

lemma accuracy_rates_accuracy:
  "accuracy_1d r = 0 \<Longrightarrow> accuracy_3d r = 0 \<Longrightarrow> accuracy_7d r = 0 \<Longrightarrow>
   accuracy h (accuracy_rates r) =
     (if total_predictions r > 0
      then real (correct_predictions h r) / real (total_predictions r) else 0)"
  by (cases h) (simp_all add: accuracy_rates_def)

lemma fold_accuracy_rates_untouched:
  "accuracy_1d (fold (accuracy_step price_data) df r) = accuracy_1d r
   \<and> accuracy_3d (fold (accuracy_step price_data) df r) = accuracy_3d r
   \<and> accuracy_7d (fold (accuracy_step price_data) df r) = accuracy_7d r"
  by (induction df arbitrary: r) (simp_all add: accuracy_step_matched split: option.splits)

lemma backtest_total:
  "total_predictions (calculate_sentiment_accuracy df price_data) =
     length (filter (\<lambda>row. matched_price_row price_data row \<noteq> None) df)"
  by (simp add: calculate_sentiment_accuracy_def accuracy_rates_fields fold_accuracy_total
      results0_def)

lemma backtest_correct:
  "correct_predictions h (calculate_sentiment_accuracy df price_data) =
     length (filter (\<lambda>row.
           case matched_price_row price_data row of
             None \<Rightarrow> False
           | Some p \<Rightarrow>
               (case forward_return h p of
                  None \<Rightarrow> False
                | Some f \<Rightarrow> (if row_composite_sentiment row > 0 then 1 else - 1)
                             = (if f > 0 then (1::int) else - 1))) df)"
proof -
  have "correct_predictions h results0 = 0" by (cases h) (simp_all add: results0_def)
  then show ?thesis
    by (simp add: calculate_sentiment_accuracy_def accuracy_rates_fields fold_accuracy_correct)
qed

lemma backtest_detailed:
  "map predicted_direction (detailed_results (calculate_sentiment_accuracy df price_data)) =
     map (\<lambda>row. if row_composite_sentiment row > 0 then 1 else - 1)
       (filter (\<lambda>row. matched_price_row price_data row \<noteq> None) df)"
  by (simp add: calculate_sentiment_accuracy_def accuracy_rates_fields fold_accuracy_detailed
      results0_def)

lemma backtest_accuracy:
  "accuracy h (calculate_sentiment_accuracy df price_data) =
     (if total_predictions (calculate_sentiment_accuracy df price_data) > 0
      then real (correct_predictions h (calculate_sentiment_accuracy df price_data))
             / real (total_predictions (calculate_sentiment_accuracy df price_data))
      else 0)"
proof -
  let ?r = "fold (accuracy_step price_data) df results0"
  have "accuracy_1d ?r = 0" "accuracy_3d ?r = 0" "accuracy_7d ?r = 0"
    using fold_accuracy_rates_untouched [of price_data df results0]
    by (simp_all add: results0_def)
  then have "accuracy h (accuracy_rates ?r) =
     (if total_predictions ?r > 0
      then real (correct_predictions h ?r) / real (total_predictions ?r) else 0)"
    by (rule accuracy_rates_accuracy)
  then show ?thesis
    by (simp only: calculate_sentiment_accuracy_def accuracy_rates_fields)
qed

lemma first_on_or_after_Some:
  assumes "first_on_or_after ps d = Some p"
  shows "\<exists>i < length ps. ps ! i = p \<and> d \<le> index_date p
           \<and> (\<forall>j < i. index_date (ps ! j) < d)"
  using assms unfolding first_on_or_after_def
  by (auto simp: find_Some_iff not_le)

lemma first_on_or_after_None:
  "first_on_or_after ps d = None \<longleftrightarrow> (\<forall>p \<in> set ps. index_date p < d)"
  unfolding first_on_or_after_def by (auto simp: find_None_iff not_le)

section \<open>Properties of the correlation in the price analyzer\<close>

lemma fold_min_key:
  "fold (\<lambda>y best. if key y < key best then y else best) xs x \<in> set (x # xs)
   \<and> (\<forall>z \<in> set (x # xs).
         key (fold (\<lambda>y best. if key y < key best then y else best) xs x) \<le> (key z :: int))"
proof (induction xs arbitrary: x)
  case Nil
  show ?case by simp
next
  case (Cons y ys)
  let ?b = "if key y < key x then y else x"
  let ?r = "fold (\<lambda>y best. if key y < key best then y else best) ys ?b"
  from Cons.IH [of ?b] have m: "?r \<in> set (?b # ys)"
    and le: "\<forall>z \<in> set (?b # ys). key ?r \<le> key z" by blast+
  from le have "key ?r \<le> key ?b" by simp
  then have "key ?r \<le> key x \<and> key ?r \<le> key y" by (simp split: if_splits)
  with m le show ?case by (auto split: if_splits)
qed

lemma min_py_Inr:
  assumes "min_py key xs = Inr m"
  shows "m \<in> set xs \<and> (\<forall>z \<in> set xs. key m \<le> key z)"
proof (cases xs)
  case Nil
  with assms show ?thesis by simp
next
  case (Cons x xs')
  with assms have "m = fold (\<lambda>y best. if key y < key best then y else best) xs' x" by simp
  with fold_min_key [of key xs' x] Cons show ?thesis by simp
qed

lemma min_py_Inl: "min_py key xs = Inl e \<longleftrightarrow> xs = []"
  by (cases xs; cases e) simp_all

lemma closest_trading_day_Inr:
  assumes "closest_trading_day price_hist d = Inr c"
  shows "c \<in> hist_date ` set price_hist
       \<and> (\<forall>r \<in> set price_hist. \<bar>c - d\<bar> \<le> \<bar>hist_date r - d\<bar>)"
  using min_py_Inr [OF assms [unfolded closest_trading_day_def]] by simp

lemma closest_trading_day_Inl:
  "closest_trading_day price_hist d = Inl e \<longleftrightarrow> price_hist = []"
  by (simp add: closest_trading_day_def min_py_Inl)

lemma find_date_Some:
  assumes "c \<in> hist_date ` set price_hist"
  shows "\<exists>p. find (\<lambda>r. hist_date r = c) price_hist = Some p \<and> p \<in> set price_hist
            \<and> hist_date p = c"
proof (cases "find (\<lambda>r. hist_date r = c) price_hist")
  case None
  with assms show ?thesis by (auto simp: find_None_iff)
next
  case (Some p)
  then show ?thesis by (auto simp: find_Some_iff)
qed

lemma matched_hist_row_Some:
  assumes "matched_hist_row strptime price_data it = Some p"
  shows "\<exists>d price_hist. strptime (si_date it) = Inr d
           \<and> price_data (si_symbol it) = Some price_hist
           \<and> p \<in> set price_hist \<and> \<bar>hist_date p - d\<bar> \<le> 3
           \<and> (\<forall>r \<in> set price_hist. \<bar>hist_date p - d\<bar> \<le> \<bar>hist_date r - d\<bar>)"
proof -
  from assms obtain d price_hist c where d: "strptime (si_date it) = Inr d"
    and h: "price_data (si_symbol it) = Some price_hist"
    and c: "closest_trading_day price_hist d = Inr c"
    and tol: "\<not> \<bar>c - d\<bar> > 3"
    and f: "find (\<lambda>r. hist_date r = c) price_hist = Some p"
    by (auto simp: matched_hist_row_def split: sum.splits option.splits if_splits)
  from f have "p \<in> set price_hist \<and> hist_date p = c" by (auto simp: find_Some_iff)
  with closest_trading_day_Inr [OF c] tol d h show ?thesis by auto
qed

lemma matched_hist_row_None:
  assumes "strptime (si_date it) = Inr d"
    and "price_data (si_symbol it) = Some price_hist"
    and "\<forall>r \<in> set price_hist. \<bar>hist_date r - d\<bar> > 3"
  shows "matched_hist_row strptime price_data it = None"
proof (cases "closest_trading_day price_hist d")
  case (Inl e)
  with assms show ?thesis by (simp add: matched_hist_row_def)
next
  case (Inr c)
  from closest_trading_day_Inr [OF this] assms(3) have "\<bar>c - d\<bar> > 3" by auto
  with Inr assms show ?thesis by (simp add: matched_hist_row_def)
qed

lemma matched_hist_row_within:
  assumes "strptime (si_date it) = Inr d"
    and "price_data (si_symbol it) = Some price_hist"
    and "\<exists>r \<in> set price_hist. \<bar>hist_date r - d\<bar> \<le> 3"
  shows "\<exists>p. matched_hist_row strptime price_data it = Some p"
proof -
  from assms(3) have "price_hist \<noteq> []" by auto
  then obtain c where c: "closest_trading_day price_hist d = Inr c"
    using closest_trading_day_Inl [of price_hist d]
    by (cases "closest_trading_day price_hist d") auto
  from closest_trading_day_Inr [OF c] assms(3) have tol: "\<not> \<bar>c - d\<bar> > 3"
    and m: "c \<in> hist_date ` set price_hist" by auto
  from find_date_Some [OF m] obtain p where
    "find (\<lambda>r. hist_date r = c) price_hist = Some p" by blast
  with c tol assms show ?thesis by (simp add: matched_hist_row_def)
qed

lemma correlate_item_Inr:
  assumes "correlate_item strptime price_data it t = Inr t'"
  shows "t' = (case matched_hist_row strptime price_data it of
                 None \<Rightarrow> t | Some p \<Rightarrow> correlate_matched it p t)"
  using assms
  by (auto simp: correlate_item_def matched_hist_row_def
      split: sum.splits option.splits if_splits)

lemma correlate_item_returns:
  assumes "strptime (si_date it) = Inr d"
    and "\<forall>price_hist. price_data (si_symbol it) = Some price_hist \<longrightarrow> price_hist \<noteq> []"
  shows "\<exists>t'. correlate_item strptime price_data it t = Inr t'"
proof (cases "price_data (si_symbol it)")
  case None
  with assms show ?thesis by (simp add: correlate_item_def)
next
  case (Some price_hist)
  with assms have "price_hist \<noteq> []" by simp
  then obtain c where "closest_trading_day price_hist d = Inr c"
    using closest_trading_day_Inl [of price_hist d]
    by (cases "closest_trading_day price_hist d") auto
  with Some assms show ?thesis
    by (simp add: correlate_item_def split: option.splits)
qed

lemma period_step_total:
  "total (period_step score p h t) h' =
     total t h' +
       (if h' = h \<and> (case price_change p h of None \<Rightarrow> False
                      | Some c \<Rightarrow> score > 0.1 \<or> score < - 0.1) then 1 else 0)"
  by (simp add: period_step_def Let_def split: option.splits)

lemma period_step_correct:
  "correct (period_step score p h t) h' =
     correct t h' +
       (if h' = h \<and> (case price_change p h of None \<Rightarrow> False
                      | Some c \<Rightarrow> (score > 0.1 \<and> c > 0) \<or> (score < - 0.1 \<and> \<not> c > 0))
        then 1 else 0)"
  by (simp add: period_step_def Let_def split: option.splits)

lemma correlate_matched_total:
  "total (correlate_matched it p t) h =
     total t h +
       (if (case price_change p h of None \<Rightarrow> False
            | Some c \<Rightarrow> si_sentiment_score it > 0.1 \<or> si_sentiment_score it < - 0.1)
        then 1 else 0)"
  by (cases h) (simp_all add: correlate_matched_def Let_def period_step_total)

lemma correlate_matched_correct:
  "correct (correlate_matched it p t) h =
     correct t h +
       (if (case price_change p h of None \<Rightarrow> False
            | Some c \<Rightarrow> (si_sentiment_score it > 0.1 \<and> c > 0)
                        \<or> (si_sentiment_score it < - 0.1 \<and> \<not> c > 0))
        then 1 else 0)"
  by (cases h) (simp_all add: correlate_matched_def Let_def period_step_correct)

lemma period_step_results: "results (period_step score p h t) = results t"
  by (simp add: period_step_def Let_def split: option.splits)

lemma correlate_matched_results:
  "map res_date (results (correlate_matched it p t)) = map res_date (results t) @ [si_date it]"
  by (simp add: correlate_matched_def Let_def period_step_results)

lemma correlate_loop_total:
  assumes "correlate_loop strptime price_data items t = Inr t'"
  shows "total t' h = total t h
     + length (filter (\<lambda>it.
         case matched_hist_row strptime price_data it of
           None \<Rightarrow> False
         | Some p \<Rightarrow>
             (case price_change p h of
                None \<Rightarrow> False
              | Some c \<Rightarrow> si_sentiment_score it > 0.1 \<or> si_sentiment_score it < - 0.1))
         items)"
  using assms
proof (induction items arbitrary: t)
  case Nil
  then show ?case by simp
next
  case (Cons it rest)
  from Cons.prems obtain t1 where s: "correlate_item strptime price_data it t = Inr t1"
    and r: "correlate_loop strptime price_data rest t1 = Inr t'"
    by (auto split: sum.splits)
  from correlate_item_Inr [OF s] have "total t1 h = total t h +
      (if (case matched_hist_row strptime price_data it of
           None \<Rightarrow> False
         | Some p \<Rightarrow>
             (case price_change p h of
                None \<Rightarrow> False
              | Some c \<Rightarrow> si_sentiment_score it > 0.1 \<or> si_sentiment_score it < - 0.1))
       then 1 else 0)"
    by (simp add: correlate_matched_total split: option.splits)
  with Cons.IH [OF r] show ?case by simp
qed

lemma correlate_loop_correct:
  assumes "correlate_loop strptime price_data items t = Inr t'"
  shows "correct t' h = correct t h
     + length (filter (\<lambda>it.
         case matched_hist_row strptime price_data it of
           None \<Rightarrow> False
         | Some p \<Rightarrow>
             (case price_change p h of
                None \<Rightarrow> False
              | Some c \<Rightarrow> (si_sentiment_score it > 0.1 \<and> c > 0)
                          \<or> (si_sentiment_score it < - 0.1 \<and> \<not> c > 0)))
         items)"
  using assms
proof (induction items arbitrary: t)
  case Nil
  then show ?case by simp
next
  case (Cons it rest)
  from Cons.prems obtain t1 where s: "correlate_item strptime price_data it t = Inr t1"
    and r: "correlate_loop strptime price_data rest t1 = Inr t'"
    by (auto split: sum.splits)
  from correlate_item_Inr [OF s] have "correct t1 h = correct t h +
      (if (case matched_hist_row strptime price_data it of
           None \<Rightarrow> False
         | Some p \<Rightarrow>
             (case price_change p h of
                None \<Rightarrow> False
              | Some c \<Rightarrow> (si_sentiment_score it > 0.1 \<and> c > 0)
                          \<or> (si_sentiment_score it < - 0.1 \<and> \<not> c > 0)))
       then 1 else 0)"
    by (simp add: correlate_matched_correct split: option.splits)
  with Cons.IH [OF r] show ?case by simp
qed

lemma correlate_loop_results:
  assumes "correlate_loop strptime price_data items t = Inr t'"
  shows "map res_date (results t') = map res_date (results t)
     @ map si_date (filter (\<lambda>it. matched_hist_row strptime price_data it \<noteq> None) items)"
  using assms
proof (induction items arbitrary: t)
  case Nil
  then show ?case by simp
next
  case (Cons it rest)
  from Cons.prems obtain t1 where s: "correlate_item strptime price_data it t = Inr t1"
    and r: "correlate_loop strptime price_data rest t1 = Inr t'"
    by (auto split: sum.splits)
  from correlate_item_Inr [OF s] have "map res_date (results t1) = map res_date (results t)
      @ (if matched_hist_row strptime price_data it \<noteq> None then [si_date it] else [])"
    by (simp add: correlate_matched_results split: option.splits)
  with Cons.IH [OF r] show ?case by simp
qed

lemma correlate_loop_returns:
  assumes "\<forall>it \<in> set items. (\<exists>d. strptime (si_date it) = Inr d)
     \<and> (\<forall>price_hist. price_data (si_symbol it) = Some price_hist \<longrightarrow> price_hist \<noteq> [])"
  shows "\<exists>t'. correlate_loop strptime price_data items t = Inr t'"
  using assms
proof (induction items arbitrary: t)
  case Nil
  show ?case by simp
next
  case (Cons it rest)
  from Cons.prems obtain d where d: "strptime (si_date it) = Inr d"
    and ne: "\<forall>price_hist. price_data (si_symbol it) = Some price_hist \<longrightarrow> price_hist \<noteq> []"
    by auto
  from correlate_item_returns [of strptime it d price_data t, OF d ne] obtain t1 where
    "correlate_item strptime price_data it t = Inr t1" by blast
  moreover from Cons.prems Cons.IH obtain t' where
    "correlate_loop strptime price_data rest t1 = Inr t'" by force
  ultimately show ?case by simp
qed

lemma correlate_Inr:
  assumes "correlate_sentiment_with_prices strptime sentiment_data price_data = Inr a"
  obtains t where "correlate_loop strptime price_data sentiment_data tally0 = Inr t"
    and "an_total_predictions a = total t" and "an_correct_predictions a = correct t"
    and "an_results a = results t"
    and "accuracies a = (\<lambda>period. if total t period > 0
            then real (correct t period) / real (total t period) * 100 else 0)"
  using assms
  by (auto simp: correlate_sentiment_with_prices_def split: sum.splits)

section \<open>Claims on the correlation of sentiment with prices\<close>

lemmas backtest_sample_defs = calculate_sentiment_accuracy_def accuracy_rates_def
  accuracy_step_def first_on_or_after_def hit_def results0_def Let_def
  matched_price_row_def sample_prices_def row_flat_def row_up_def row_far_def

lemmas correlate_sample_defs = correlate_sentiment_with_prices_def correlate_item_def
  closest_trading_day_def correlate_matched_def period_step_def tally0_def Let_def
  matched_hist_row_def sample_strptime_def sample_hist_def changes_def json_entry_def
  db_entry_def db_entry_other_def stale_entry_def

lemma sample_correlation_returns:
  "correlate_sentiment_with_prices sample_strptime
       [db_entry, db_entry_other, stale_entry] sample_hist
     = Inr (projr (correlate_sentiment_with_prices sample_strptime
                     [db_entry, db_entry_other, stale_entry] sample_hist))"
proof -
  have "\<not> isl (correlate_sentiment_with_prices sample_strptime
     [db_entry, db_entry_other, stale_entry] sample_hist)"
    by (simp add: correlate_sample_defs)
  then show ?thesis
    by (cases "correlate_sentiment_with_prices sample_strptime
                 [db_entry, db_entry_other, stale_entry] sample_hist") simp_all
qed

text \<open>
  Claim C1, as amended.  In the backtester, every ranking row that is paired with a
  price row gets the predicted direction +1 if its sentiment score is strictly greater
  than 0 and -1 otherwise (so a score of exactly 0 predicts -1), and the prediction is
  counted correct for horizon \<open>h\<close> exactly when the forward return at \<open>h\<close> is defined and
  the predicted direction equals the actual direction, which is +1 if the forward return
  is strictly greater than 0 and -1 otherwise: a forward return of exactly 0 counts as
  down.  In the price analyzer, a paired entry is counted correct for \<open>h\<close> exactly when
  the price change at \<open>h\<close> is defined and either the score is above 0.1 and the change is
  positive, or the score is below -0.1 and the change is not positive.
\<close>

theorem direction_and_correctness:
  "map predicted_direction
       (detailed_results (calculate_sentiment_accuracy sentiment_df price_data))
     = map (\<lambda>row. if row_composite_sentiment row > 0 then 1 else - 1)
         (filter (\<lambda>row. matched_price_row price_data row \<noteq> None) sentiment_df)
   \<and> correct_predictions h (calculate_sentiment_accuracy sentiment_df price_data)
     = length (filter (\<lambda>row.
           case matched_price_row price_data row of
             None \<Rightarrow> False
           | Some p \<Rightarrow>
               (case forward_return h p of
                  None \<Rightarrow> False
                | Some f \<Rightarrow> (if row_composite_sentiment row > 0 then 1 else - 1)
                             = (if f > 0 then (1::int) else - 1))) sentiment_df)
   \<and> (\<forall>a. correlate_sentiment_with_prices strptime sentiment_data hist_data = Inr a \<longrightarrow>
         an_correct_predictions a h
           = length (filter (\<lambda>it.
               case matched_hist_row strptime hist_data it of
                 None \<Rightarrow> False
               | Some p \<Rightarrow>
                   (case price_change p h of
                      None \<Rightarrow> False
                    | Some c \<Rightarrow> (si_sentiment_score it > 0.1 \<and> c > 0)
                                \<or> (si_sentiment_score it < - 0.1 \<and> \<not> c > 0)))
               sentiment_data))"
proof (intro conjI allI impI)
  show "map predicted_direction
       (detailed_results (calculate_sentiment_accuracy sentiment_df price_data))
     = map (\<lambda>row. if row_composite_sentiment row > 0 then 1 else - 1)
         (filter (\<lambda>row. matched_price_row price_data row \<noteq> None) sentiment_df)"
    by (rule backtest_detailed)
  show "correct_predictions h (calculate_sentiment_accuracy sentiment_df price_data)
     = length (filter (\<lambda>row.
           case matched_price_row price_data row of
             None \<Rightarrow> False
           | Some p \<Rightarrow>
               (case forward_return h p of
                  None \<Rightarrow> False
                | Some f \<Rightarrow> (if row_composite_sentiment row > 0 then 1 else - 1)
                             = (if f > 0 then (1::int) else - 1))) sentiment_df)"
    by (rule backtest_correct)
next
  fix a
  assume "correlate_sentiment_with_prices strptime sentiment_data hist_data = Inr a"
  then obtain t where t: "correlate_loop strptime hist_data sentiment_data tally0 = Inr t"
    and c: "an_correct_predictions a = correct t" by (rule correlate_Inr)
  from correlate_loop_correct [OF t, of h] c
  show "an_correct_predictions a h
           = length (filter (\<lambda>it.
               case matched_hist_row strptime hist_data it of
                 None \<Rightarrow> False
               | Some p \<Rightarrow>
                   (case price_change p h of
                      None \<Rightarrow> False
                    | Some c \<Rightarrow> (si_sentiment_score it > 0.1 \<and> c > 0)
                                \<or> (si_sentiment_score it < - 0.1 \<and> \<not> c > 0)))
               sentiment_data)"
    by (simp add: tally0_def)
qed

theorem direction_and_correctness_witness:
  "map predicted_direction
       (detailed_results (calculate_sentiment_accuracy [row_flat, row_up] sample_prices))
     = [- 1, 1]
   \<and> correct_predictions H3d (calculate_sentiment_accuracy [row_flat, row_up] sample_prices)
     = 1
   \<and> correlate_sentiment_with_prices sample_strptime
         [db_entry, db_entry_other, stale_entry] sample_hist
       = Inr (projr (correlate_sentiment_with_prices sample_strptime
                       [db_entry, db_entry_other, stale_entry] sample_hist))
   \<and> an_correct_predictions (projr (correlate_sentiment_with_prices sample_strptime
         [db_entry, db_entry_other, stale_entry] sample_hist)) H1d = 1"
proof -
  note t = direction_and_correctness [of "[row_flat, row_up]" sample_prices H3d
      sample_strptime "[db_entry, db_entry_other, stale_entry]" sample_hist]
  note u = direction_and_correctness [of "[row_flat, row_up]" sample_prices H1d
      sample_strptime "[db_entry, db_entry_other, stale_entry]" sample_hist]
  from t have 1: "map predicted_direction
       (detailed_results (calculate_sentiment_accuracy [row_flat, row_up] sample_prices))
     = [- 1, 1]"
    by (simp add: matched_price_row_def first_on_or_after_def sample_prices_def
        row_flat_def row_up_def)
  from t have 2: "correct_predictions H3d
       (calculate_sentiment_accuracy [row_flat, row_up] sample_prices) = 1"
    by (simp add: matched_price_row_def first_on_or_after_def sample_prices_def
        row_flat_def row_up_def)
  from u sample_correlation_returns
  have "an_correct_predictions (projr (correlate_sentiment_with_prices sample_strptime
         [db_entry, db_entry_other, stale_entry] sample_hist)) H1d
          = length (filter (\<lambda>it.
               case matched_hist_row sample_strptime sample_hist it of
                 None \<Rightarrow> False
               | Some p \<Rightarrow>
                   (case price_change p H1d of
                      None \<Rightarrow> False
                    | Some c \<Rightarrow> (si_sentiment_score it > 0.1 \<and> c > 0)
                                \<or> (si_sentiment_score it < - 0.1 \<and> \<not> c > 0)))
               [db_entry, db_entry_other, stale_entry])"
    by blast
  also have "\<dots> = 1"
    by (simp add: matched_hist_row_def closest_trading_day_def sample_strptime_def
        sample_hist_def changes_def db_entry_def db_entry_other_def stale_entry_def)
  finally show ?thesis using 1 2 sample_correlation_returns by simp
qed

text \<open>
  Counterexample to claim C1 as stated: a ranking row of sentiment score 0 is paired
  with a trading day whose 1-day forward return is exactly 0.  The predicted direction
  is -1 and the prediction is counted correct for the 1-day horizon, so the forward
  return 0 was taken as down, not as up.
\<close>

theorem flat_return_counterexample:
  "row_composite_sentiment row_flat = 0
   \<and> map forward_1d_return
       (detailed_results (calculate_sentiment_accuracy [row_flat] sample_prices)) = [Some 0]
   \<and> map predicted_direction
       (detailed_results (calculate_sentiment_accuracy [row_flat] sample_prices)) = [- 1]
   \<and> total_predictions (calculate_sentiment_accuracy [row_flat] sample_prices) = 1
   \<and> correct_predictions_1d (calculate_sentiment_accuracy [row_flat] sample_prices) = 1"
  by (simp add: backtest_sample_defs)

text \<open>
  Claim C2, as amended.  The backtester keeps one total for all horizons: it counts
  every ranking row paired with a price row that has at least one defined forward
  return, also for a horizon at which the return of that row is undefined; only the
  correct count of that horizon leaves the row out; each accuracy is the correct count
  of the horizon divided by the shared total, and 0 when the total is zero.  The price
  analyzer keeps totals and correct counts per horizon: a paired entry whose price
  change is undefined at \<open>h\<close> is left out of both for \<open>h\<close> only, an entry whose score lies
  in \<open>[-0.1, 0.1]\<close> is left out of both at every horizon, and the accuracy of \<open>h\<close> is the
  percentage \<open>100 * correct[h] / total[h]\<close>, and 0 when \<open>total[h]\<close> is zero.
\<close>

theorem totals_and_accuracy:
  "total_predictions (calculate_sentiment_accuracy sentiment_df price_data)
     = length (filter (\<lambda>row. matched_price_row price_data row \<noteq> None) sentiment_df)
   \<and> correct_predictions h (calculate_sentiment_accuracy sentiment_df price_data)
     = length (filter (\<lambda>row.
           case matched_price_row price_data row of
             None \<Rightarrow> False
           | Some p \<Rightarrow>
               (case forward_return h p of
                  None \<Rightarrow> False
                | Some f \<Rightarrow> (if row_composite_sentiment row > 0 then 1 else - 1)
                             = (if f > 0 then (1::int) else - 1))) sentiment_df)
   \<and> accuracy h (calculate_sentiment_accuracy sentiment_df price_data)
     = (if total_predictions (calculate_sentiment_accuracy sentiment_df price_data) > 0
        then real (correct_predictions h (calculate_sentiment_accuracy sentiment_df price_data))
               / real (total_predictions (calculate_sentiment_accuracy sentiment_df price_data))
        else 0)
   \<and> (\<forall>a. correlate_sentiment_with_prices strptime sentiment_data hist_data = Inr a \<longrightarrow>
         an_total_predictions a h
           = length (filter (\<lambda>it.
               case matched_hist_row strptime hist_data it of
                 None \<Rightarrow> False
               | Some p \<Rightarrow>
                   (case price_change p h of
                      None \<Rightarrow> False
                    | Some c \<Rightarrow> si_sentiment_score it > 0.1 \<or> si_sentiment_score it < - 0.1))
               sentiment_data)
       \<and> an_correct_predictions a h
           = length (filter (\<lambda>it.
               case matched_hist_row strptime hist_data it of
                 None \<Rightarrow> False
               | Some p \<Rightarrow>
                   (case price_change p h of
                      None \<Rightarrow> False
                    | Some c \<Rightarrow> (si_sentiment_score it > 0.1 \<and> c > 0)
                                \<or> (si_sentiment_score it < - 0.1 \<and> \<not> c > 0)))
               sentiment_data)
       \<and> accuracies a h
           = (if an_total_predictions a h > 0
              then real (an_correct_predictions a h) / real (an_total_predictions a h) * 100
              else 0))"
proof (intro conjI allI impI)
  show "total_predictions (calculate_sentiment_accuracy sentiment_df price_data)
     = length (filter (\<lambda>row. matched_price_row price_data row \<noteq> None) sentiment_df)"
    by (rule backtest_total)
  show "correct_predictions h (calculate_sentiment_accuracy sentiment_df price_data)
     = length (filter (\<lambda>row.
           case matched_price_row price_data row of
             None \<Rightarrow> False
           | Some p \<Rightarrow>
               (case forward_return h p of
                  None \<Rightarrow> False
                | Some f \<Rightarrow> (if row_composite_sentiment row > 0 then 1 else - 1)
                             = (if f > 0 then (1::int) else - 1))) sentiment_df)"
    by (rule backtest_correct)
  show "accuracy h (calculate_sentiment_accuracy sentiment_df price_data)
     = (if total_predictions (calculate_sentiment_accuracy sentiment_df price_data) > 0
        then real (correct_predictions h (calculate_sentiment_accuracy sentiment_df price_data))
               / real (total_predictions (calculate_sentiment_accuracy sentiment_df price_data))
        else 0)"
    by (rule backtest_accuracy)
next
  fix a
  assume a: "correlate_sentiment_with_prices strptime sentiment_data hist_data = Inr a"
  then obtain t where t: "correlate_loop strptime hist_data sentiment_data tally0 = Inr t"
    and tt: "an_total_predictions a = total t"
    and c: "an_correct_predictions a = correct t"
    and acc: "accuracies a = (\<lambda>period. if total t period > 0
            then real (correct t period) / real (total t period) * 100 else 0)"
    by (rule correlate_Inr)
  from correlate_loop_total [OF t, of h] tt
  show "an_total_predictions a h
           = length (filter (\<lambda>it.
               case matched_hist_row strptime hist_data it of
                 None \<Rightarrow> False
               | Some p \<Rightarrow>
                   (case price_change p h of
                      None \<Rightarrow> False
                    | Some c \<Rightarrow> si_sentiment_score it > 0.1 \<or> si_sentiment_score it < - 0.1))
               sentiment_data)"
    by (simp add: tally0_def)
  from correlate_loop_correct [OF t, of h] c
  show "an_correct_predictions a h
           = length (filter (\<lambda>it.
               case matched_hist_row strptime hist_data it of
                 None \<Rightarrow> False
               | Some p \<Rightarrow>
                   (case price_change p h of
                      None \<Rightarrow> False
                    | Some c \<Rightarrow> (si_sentiment_score it > 0.1 \<and> c > 0)
                                \<or> (si_sentiment_score it < - 0.1 \<and> \<not> c > 0)))
               sentiment_data)"
    by (simp add: tally0_def)
  from tt c acc
  show "accuracies a h
           = (if an_total_predictions a h > 0
              then real (an_correct_predictions a h) / real (an_total_predictions a h) * 100
              else 0)"
    by simp
qed

theorem totals_and_accuracy_witness:
  "total_predictions (calculate_sentiment_accuracy [row_flat, row_up] sample_prices) = 2
   \<and> correlate_sentiment_with_prices sample_strptime
         [db_entry, db_entry_other, stale_entry] sample_hist
       = Inr (projr (correlate_sentiment_with_prices sample_strptime
                       [db_entry, db_entry_other, stale_entry] sample_hist))
   \<and> an_total_predictions (projr (correlate_sentiment_with_prices sample_strptime
         [db_entry, db_entry_other, stale_entry] sample_hist)) H3d = 0
   \<and> accuracies (projr (correlate_sentiment_with_prices sample_strptime
         [db_entry, db_entry_other, stale_entry] sample_hist)) H3d = 0"
proof -
  let ?a = "projr (correlate_sentiment_with_prices sample_strptime
         [db_entry, db_entry_other, stale_entry] sample_hist)"
  note t = totals_and_accuracy [of "[row_flat, row_up]" sample_prices H3d
      sample_strptime "[db_entry, db_entry_other, stale_entry]" sample_hist]
  from t have 1: "total_predictions
       (calculate_sentiment_accuracy [row_flat, row_up] sample_prices) = 2"
    by (simp add: matched_price_row_def first_on_or_after_def sample_prices_def
        row_flat_def row_up_def)
  from t sample_correlation_returns
  have tot: "an_total_predictions ?a H3d
          = length (filter (\<lambda>it.
               case matched_hist_row sample_strptime sample_hist it of
                 None \<Rightarrow> False
               | Some p \<Rightarrow>
                   (case price_change p H3d of
                      None \<Rightarrow> False
                    | Some c \<Rightarrow> si_sentiment_score it > 0.1 \<or> si_sentiment_score it < - 0.1))
               [db_entry, db_entry_other, stale_entry])"
    and acc: "accuracies ?a H3d
           = (if an_total_predictions ?a H3d > 0
              then real (an_correct_predictions ?a H3d) / real (an_total_predictions ?a H3d) * 100
              else 0)"
    by blast+
  have "length (filter (\<lambda>it.
               case matched_hist_row sample_strptime sample_hist it of
                 None \<Rightarrow> False
               | Some p \<Rightarrow>
                   (case price_change p H3d of
                      None \<Rightarrow> False
                    | Some c \<Rightarrow> si_sentiment_score it > 0.1 \<or> si_sentiment_score it < - 0.1))
               [db_entry, db_entry_other, stale_entry]) = 0"
    by (simp add: matched_hist_row_def closest_trading_day_def sample_strptime_def
        sample_hist_def changes_def db_entry_def db_entry_other_def stale_entry_def)
  with tot have 2: "an_total_predictions ?a H3d = 0" by simp
  with acc have 3: "accuracies ?a H3d = 0" by simp
  from 1 2 3 sample_correlation_returns show ?thesis by simp
qed

text \<open>
  Counterexample to claim C2 as stated.  Backtester: of two paired rows the first has
  no 3-day forward return; it is still counted in the total that divides the 3-day
  correct count, so the 3-day accuracy is 1/2 although the only row with a 3-day return
  was predicted correctly.  Price analyzer: with one correct prediction out of one at
  the 1-day horizon the accuracy is 100, not 1; and the second entry, paired with a row
  whose 3-day change is defined, is not counted at the 3-day horizon, its score 0.05
  making no prediction.
\<close>

theorem per_horizon_counterexample:
  "map forward_3d_return
       (detailed_results (calculate_sentiment_accuracy [row_flat, row_up] sample_prices))
     = [None, Some 0.03]
   \<and> total_predictions (calculate_sentiment_accuracy [row_flat, row_up] sample_prices) = 2
   \<and> correct_predictions_3d (calculate_sentiment_accuracy [row_flat, row_up] sample_prices) = 1
   \<and> accuracy_3d (calculate_sentiment_accuracy [row_flat, row_up] sample_prices) = 1 / 2
   \<and> \<not> isl (correlate_sentiment_with_prices sample_strptime
              [db_entry, db_entry_other, stale_entry] sample_hist)
   \<and> an_total_predictions (projr (correlate_sentiment_with_prices sample_strptime
         [db_entry, db_entry_other, stale_entry] sample_hist)) H1d = 1
   \<and> an_correct_predictions (projr (correlate_sentiment_with_prices sample_strptime
         [db_entry, db_entry_other, stale_entry] sample_hist)) H1d = 1
   \<and> accuracies (projr (correlate_sentiment_with_prices sample_strptime
         [db_entry, db_entry_other, stale_entry] sample_hist)) H1d = 100
   \<and> map res_date (an_results (projr (correlate_sentiment_with_prices sample_strptime
         [db_entry, db_entry_other, stale_entry] sample_hist)))
       = [''2024-01-02'', ''2024-01-05'']
   \<and> map (\<lambda>r. res_price_change r H3d)
         (an_results (projr (correlate_sentiment_with_prices sample_strptime
            [db_entry, db_entry_other, stale_entry] sample_hist)))
       = [None, Some 1.5]
   \<and> an_total_predictions (projr (correlate_sentiment_with_prices sample_strptime
         [db_entry, db_entry_other, stale_entry] sample_hist)) H3d = 0"
proof -
  have "map forward_3d_return
       (detailed_results (calculate_sentiment_accuracy [row_flat, row_up] sample_prices))
     = [None, Some 0.03]
   \<and> total_predictions (calculate_sentiment_accuracy [row_flat, row_up] sample_prices) = 2
   \<and> correct_predictions_3d (calculate_sentiment_accuracy [row_flat, row_up] sample_prices) = 1
   \<and> accuracy_3d (calculate_sentiment_accuracy [row_flat, row_up] sample_prices) = 1 / 2"
    by (simp add: backtest_sample_defs)
  moreover have "\<not> isl (correlate_sentiment_with_prices sample_strptime
              [db_entry, db_entry_other, stale_entry] sample_hist)
   \<and> an_total_predictions (projr (correlate_sentiment_with_prices sample_strptime
         [db_entry, db_entry_other, stale_entry] sample_hist)) H1d = 1
   \<and> an_correct_predictions (projr (correlate_sentiment_with_prices sample_strptime
         [db_entry, db_entry_other, stale_entry] sample_hist)) H1d = 1
   \<and> accuracies (projr (correlate_sentiment_with_prices sample_strptime
         [db_entry, db_entry_other, stale_entry] sample_hist)) H1d = 100"
    by (simp add: correlate_sample_defs)
  moreover have "map res_date (an_results (projr (correlate_sentiment_with_prices sample_strptime
         [db_entry, db_entry_other, stale_entry] sample_hist)))
       = [''2024-01-02'', ''2024-01-05'']
   \<and> map (\<lambda>r. res_price_change r H3d)
         (an_results (projr (correlate_sentiment_with_prices sample_strptime
            [db_entry, db_entry_other, stale_entry] sample_hist)))
       = [None, Some 1.5]
   \<and> an_total_predictions (projr (correlate_sentiment_with_prices sample_strptime
         [db_entry, db_entry_other, stale_entry] sample_hist)) H3d = 0"
    by (simp add: correlate_sample_defs)
  ultimately show ?thesis by blast
qed

text \<open>
  Claim C3, as amended.  In the price analyzer, a sentiment entry with a well-formed
  date whose symbol has a non-empty price table is paired with a trading day of that
  table at the smallest absolute day distance from the entry's date; if no trading day lies within 3 days
  the entry is skipped entirely, leaving every total, every correct count and the
  result list unchanged and raising nothing.  In the backtester, a ranking row is
  paired with the first trading day on or after its date, at whatever distance, and is
  skipped when the table has no such day.
\<close>

theorem nearest_trading_day:
  "(\<forall>d price_hist.
      strptime (si_date it) = Inr d \<and> hist_data (si_symbol it) = Some price_hist
        \<and> price_hist \<noteq> [] \<longrightarrow>
      ((\<forall>r \<in> set price_hist. \<bar>hist_date r - d\<bar> > 3) \<longrightarrow>
         correlate_item strptime hist_data it t = Inr t)
      \<and> ((\<exists>r \<in> set price_hist. \<bar>hist_date r - d\<bar> \<le> 3) \<longrightarrow>
           (\<exists>p \<in> set price_hist.
              \<bar>hist_date p - d\<bar> \<le> 3
              \<and> (\<forall>r \<in> set price_hist. \<bar>hist_date p - d\<bar> \<le> \<bar>hist_date r - d\<bar>)
              \<and> matched_hist_row strptime hist_data it = Some p
              \<and> correlate_item strptime hist_data it t = Inr (correlate_matched it p t))))
   \<and> (\<forall>symbol_prices.
        price_data (row_symbol row) = Some symbol_prices \<longrightarrow>
        ((\<forall>p \<in> set symbol_prices. index_date p < row_date row) \<longrightarrow>
           accuracy_step price_data row r = r)
        \<and> (\<forall>p. matched_price_row price_data row = Some p \<longrightarrow>
              (\<exists>i < length symbol_prices. symbol_prices ! i = p
                 \<and> row_date row \<le> index_date p
                 \<and> (\<forall>j < i. index_date (symbol_prices ! j) < row_date row))))"
proof (intro conjI allI impI)
  fix d price_hist
  assume a: "strptime (si_date it) = Inr d \<and> hist_data (si_symbol it) = Some price_hist
        \<and> price_hist \<noteq> []"
  then have d: "strptime (si_date it) = Inr d"
    and h: "hist_data (si_symbol it) = Some price_hist"
    and ne: "price_hist \<noteq> []" by simp_all
  from ne h have "\<forall>ph. hist_data (si_symbol it) = Some ph \<longrightarrow> ph \<noteq> []" by simp
  from correlate_item_returns [of strptime it d hist_data t, OF d this]
  obtain t' where t': "correlate_item strptime hist_data it t = Inr t'" by blast
  note eq = correlate_item_Inr [OF t']
  {
    assume "\<forall>r \<in> set price_hist. \<bar>hist_date r - d\<bar> > 3"
    from matched_hist_row_None [of strptime it d hist_data price_hist, OF d h this] eq t'
    show "correlate_item strptime hist_data it t = Inr t" by simp
  }
  {
    assume "\<exists>r \<in> set price_hist. \<bar>hist_date r - d\<bar> \<le> 3"
    from matched_hist_row_within [of strptime it d hist_data price_hist, OF d h this] obtain p where
      p: "matched_hist_row strptime hist_data it = Some p" by blast
    from matched_hist_row_Some [OF p] d h have "p \<in> set price_hist"
      and "\<bar>hist_date p - d\<bar> \<le> 3"
      and "\<forall>r \<in> set price_hist. \<bar>hist_date p - d\<bar> \<le> \<bar>hist_date r - d\<bar>"
      by auto
    moreover from eq p t' have "correlate_item strptime hist_data it t
        = Inr (correlate_matched it p t)" by simp
    ultimately show "\<exists>p \<in> set price_hist.
              \<bar>hist_date p - d\<bar> \<le> 3
              \<and> (\<forall>r \<in> set price_hist. \<bar>hist_date p - d\<bar> \<le> \<bar>hist_date r - d\<bar>)
              \<and> matched_hist_row strptime hist_data it = Some p
              \<and> correlate_item strptime hist_data it t = Inr (correlate_matched it p t)"
      using p by blast
  }
next
  fix symbol_prices
  assume s: "price_data (row_symbol row) = Some symbol_prices"
  {
    assume "\<forall>p \<in> set symbol_prices. index_date p < row_date row"
    then have "first_on_or_after symbol_prices (row_date row) = None"
      by (simp add: first_on_or_after_None)
    with s show "accuracy_step price_data row r = r"
      by (simp add: accuracy_step_def Let_def)
  }
  {
    fix p
    assume "matched_price_row price_data row = Some p"
    with s have "first_on_or_after symbol_prices (row_date row) = Some p"
      by (simp add: matched_price_row_def split: option.splits if_splits)
    then show "\<exists>i < length symbol_prices. symbol_prices ! i = p
                 \<and> row_date row \<le> index_date p
                 \<and> (\<forall>j < i. index_date (symbol_prices ! j) < row_date row)"
      by (rule first_on_or_after_Some)
  }
qed

theorem nearest_trading_day_witness:
  "correlate_item sample_strptime sample_hist stale_entry tally0 = Inr tally0
   \<and> sample_strptime (si_date db_entry_other) = Inr 5
   \<and> matched_hist_row sample_strptime sample_hist db_entry_other
       = Some \<lparr>hist_date = 4, price_change = changes (Some 2) (Some 1.5) None,
               Close = 102.5\<rparr>
   \<and> matched_price_row sample_prices row_far
       = Some \<lparr>index_date = 110, Forward_1d_Return = Some 0.01, Forward_3d_Return = None,
               Forward_7d_Return = None\<rparr>
   \<and> row_date row_far \<le> 110"
proof -
  let ?rows = "[\<lparr>hist_date = 1, price_change = changes None None None, Close = 101\<rparr>,
         \<lparr>hist_date = 2, price_change = changes (Some (- 1)) None None, Close = 99.99\<rparr>,
         \<lparr>hist_date = 3, price_change = changes (Some 0.5) None None, Close = 100.49\<rparr>,
         \<lparr>hist_date = 4, price_change = changes (Some 2) (Some 1.5) None,
          Close = 102.5\<rparr>]"
  have far: "sample_strptime (si_date stale_entry) = Inr 20
      \<and> sample_hist (si_symbol stale_entry) = Some ?rows \<and> ?rows \<noteq> []"
    by (simp add: sample_strptime_def sample_hist_def stale_entry_def)
  have none: "\<forall>r \<in> set ?rows. \<bar>hist_date r - 20\<bar> > 3" by simp
  from nearest_trading_day [of sample_strptime stale_entry sample_hist tally0] far none
  have 1: "correlate_item sample_strptime sample_hist stale_entry tally0 = Inr tally0"
    by blast
  have near: "sample_strptime (si_date db_entry_other) = Inr 5
      \<and> sample_hist (si_symbol db_entry_other) = Some ?rows \<and> ?rows \<noteq> []"
    by (simp add: sample_strptime_def sample_hist_def db_entry_other_def)
  have some: "\<exists>r \<in> set ?rows. \<bar>hist_date r - 5\<bar> \<le> 3" by simp
  from nearest_trading_day [of sample_strptime db_entry_other sample_hist tally0] near some
  obtain p where "p \<in> set ?rows"
    and "\<forall>r \<in> set ?rows. \<bar>hist_date p - 5\<bar> \<le> \<bar>hist_date r - 5\<bar>"
    and p: "matched_hist_row sample_strptime sample_hist db_entry_other = Some p"
    by blast
  then have "p = \<lparr>hist_date = 4, price_change = changes (Some 2) (Some 1.5) None,
          Close = 102.5\<rparr>"
    by auto
  with p have 2: "matched_hist_row sample_strptime sample_hist db_entry_other
       = Some \<lparr>hist_date = 4, price_change = changes (Some 2) (Some 1.5) None,
               Close = 102.5\<rparr>" by simp
  have row: "sample_prices (row_symbol row_far)
       = Some [\<lparr>index_date = 110, Forward_1d_Return = Some 0.01, Forward_3d_Return = None,
                Forward_7d_Return = None\<rparr>,
               \<lparr>index_date = 111, Forward_1d_Return = None, Forward_3d_Return = None,
                Forward_7d_Return = None\<rparr>]"
    by (simp add: sample_prices_def row_far_def)
  have 3: "matched_price_row sample_prices row_far
       = Some \<lparr>index_date = 110, Forward_1d_Return = Some 0.01, Forward_3d_Return = None,
               Forward_7d_Return = None\<rparr>"
    by (simp add: backtest_sample_defs)
  from nearest_trading_day [of sample_strptime stale_entry sample_hist tally0
      sample_prices row_far results0] row 3
  have 4: "row_date row_far \<le> 110" by fastforce
  from 1 2 3 4 near show ?thesis by simp
qed

text \<open>
  Counterexample to claim C3 as stated.  Backtester: a ranking row dated day 100 for
  a symbol whose earliest trading day is day 110, ten days later, is paired with that
  day and counted as a prediction instead of being skipped.  Price analyzer: on an empty
  price table the search for the closest trading day raises \<open>ValueError\<close>.
\<close>

theorem tolerance_counterexample:
  "row_date row_far = 100
   \<and> sample_prices (row_symbol row_far)
       = Some [\<lparr>index_date = 110, Forward_1d_Return = Some 0.01, Forward_3d_Return = None,
                Forward_7d_Return = None\<rparr>,
               \<lparr>index_date = 111, Forward_1d_Return = None, Forward_3d_Return = None,
                Forward_7d_Return = None\<rparr>]
   \<and> total_predictions (calculate_sentiment_accuracy [row_far] sample_prices) = 1
   \<and> correct_predictions_1d (calculate_sentiment_accuracy [row_far] sample_prices) = 1
   \<and> map forward_1d_return
       (detailed_results (calculate_sentiment_accuracy [row_far] sample_prices))
     = [Some 0.01]
   \<and> correlate_sentiment_with_prices sample_strptime [json_entry] [''AAPL'' \<mapsto> []]
     = Inl ValueError"
proof -
  have "row_date row_far = 100
   \<and> sample_prices (row_symbol row_far)
       = Some [\<lparr>index_date = 110, Forward_1d_Return = Some 0.01, Forward_3d_Return = None,
                Forward_7d_Return = None\<rparr>,
               \<lparr>index_date = 111, Forward_1d_Return = None, Forward_3d_Return = None,
                Forward_7d_Return = None\<rparr>]
   \<and> total_predictions (calculate_sentiment_accuracy [row_far] sample_prices) = 1
   \<and> correct_predictions_1d (calculate_sentiment_accuracy [row_far] sample_prices) = 1
   \<and> map forward_1d_return
       (detailed_results (calculate_sentiment_accuracy [row_far] sample_prices))
     = [Some 0.01]"
    by (simp add: backtest_sample_defs)
  moreover have "correlate_sentiment_with_prices sample_strptime [json_entry]
      [''AAPL'' \<mapsto> []] = Inl ValueError"
    by (simp add: correlate_sample_defs)
  ultimately show ?thesis by blast
qed

end
